theory Spec2Isabelle
  imports Main "HOL-Library.Word" "HOL-Library.AList" "HOL-Library.Sublist"
begin

section \<open>Python values used by the two modules\<close>

text \<open>
  Exceptions are values.  \<open>IndexError\<close> and \<open>UnicodeEncodeError\<close> are the two exceptions
  that the interpreter itself can raise inside \<open>prompt_tune\<close> (tuple indexing and
  \<open>str.encode\<close> with \<open>errors="strict"\<close>); \<open>Raised n\<close> is any exception object raised
  by a collaborator outside the two modules.  \<open>DanglingReference\<close> marks a reference to a
  dictionary that was never allocated; Python has no such state.
\<close>

datatype exn = IndexError | UnicodeEncodeError | DanglingReference | Raised string

datatype pyval = PNone | PBool bool | PInt int | PStr string

text \<open>A \<open>dict\<close> with string keys keeps its keys in insertion order.\<close>

type_synonym pydict = "(string \<times> pyval) list"

fun truthy :: "pyval \<Rightarrow> bool" where
  "truthy PNone = False"
| "truthy (PBool b) = b"
| "truthy (PInt i) = (i \<noteq> 0)"
| "truthy (PStr s) = (s \<noteq> [])"

definition dict_truthy :: "pydict \<Rightarrow> bool" where
  "dict_truthy d = (d \<noteq> [])"

definition dict_get :: "pydict \<Rightarrow> string \<Rightarrow> pyval \<Rightarrow> pyval" where
  "dict_get d k dflt = (case map_of d k of None \<Rightarrow> dflt | Some v \<Rightarrow> v)"

definition dict_update :: "pydict \<Rightarrow> string \<Rightarrow> pyval \<Rightarrow> pydict" where
  "dict_update d k v = AList.update k v d"

text \<open>
  The declared return type of both search functions,
  \<open>str | dict[str, Any] | list[dict[str, Any]]\<close>.
\<close>

datatype response = RStr string | RDict pydict | RList "pydict list"

text \<open>
  \<open>pathlib.Path\<close>: the two constructions of the source are \<open>Path(output)\<close> and
  \<open>output_path / NAME\<close>.  A path object defines neither \<open>__bool__\<close> nor \<open>__len__\<close>, so
  its truth value is \<open>True\<close> whatever the string.
\<close>

datatype path = Path string | PathJoin path string

definition bool_Path :: "path \<Rightarrow> bool" where
  "bool_Path p = True"

text \<open>An f-string is kept as its template: literal pieces and formatted values.\<close>

datatype fragment = Lit string | FmtPath path | FmtDict pydict | FmtResponse response

type_synonym message = "fragment list"

subsection \<open>\<open>str.encode(encoding="utf-8", errors="strict")\<close>\<close>

text \<open>
  The text of a prompt is a sequence of code points.  With \<open>errors="strict"\<close> a surrogate
  code point (\<open>0xD800\<close> to \<open>0xDFFF\<close>) raises \<open>UnicodeEncodeError\<close>.  No \<open>str\<close> holds a
  code point above \<open>0x10FFFF\<close>; the model rejects it as well.
\<close>

type_synonym byte = "8 word"

type_synonym ustr = "nat list"

definition encode_codepoint :: "nat \<Rightarrow> exn + byte list" where
  "encode_codepoint c =
     (if c < 0x80 then Inr [word_of_nat c]
      else if c < 0x800 then
        Inr [word_of_nat (0xC0 + c div 64), word_of_nat (0x80 + c mod 64)]
      else if 0xD800 \<le> c \<and> c \<le> 0xDFFF then Inl UnicodeEncodeError
      else if c < 0x10000 then
        Inr [word_of_nat (0xE0 + c div 4096), word_of_nat (0x80 + (c div 64) mod 64),
             word_of_nat (0x80 + c mod 64)]
      else if c < 0x110000 then
        Inr [word_of_nat (0xF0 + c div 262144), word_of_nat (0x80 + (c div 4096) mod 64),
             word_of_nat (0x80 + (c div 64) mod 64), word_of_nat (0x80 + c mod 64)]
      else Inl UnicodeEncodeError)"

fun encode_utf8_strict :: "ustr \<Rightarrow> exn + byte list" where
  "encode_utf8_strict [] = Inr []"
| "encode_utf8_strict (c # cs) =
     (case encode_codepoint c of
        Inl e \<Rightarrow> Inl e
      | Inr bs \<Rightarrow>
          (case encode_utf8_strict cs of
             Inl e \<Rightarrow> Inl e
           | Inr rest \<Rightarrow> Inr (bs @ rest)))"

text \<open>\<open>prompts[i]\<close>: indexing out of range raises \<open>IndexError\<close>.\<close>

definition getitem :: "'a list \<Rightarrow> nat \<Rightarrow> exn + 'a" where
  "getitem xs i = (if i < length xs then Inr (xs ! i) else Inl IndexError)"

section \<open>Programs: state, exceptions and the record of calls\<close>

text \<open>
  Both modules are glue: they call collaborators that live outside them (configuration
  loading, prompt generation, the indexer adapters, vector stores, search engines, the
  progress reporter, the file system).  A collaborator is a parameter of the model: a
  function on the state \<open>'x\<close> of the outside world that returns an exception or a value
  together with the new outside state.  Objects owned by collaborators have the opaque
  type \<open>'o\<close>.

  The state of a run has three parts: the outside state, the heap of dictionaries that
  the caller and the modules share by reference, and the record of the calls made so
  far, each with its arguments and its outcome.  Collaborators act on the outside state
  only; they are taken not to mutate the dictionaries handed to them.
\<close>

record ('x, 'ev) world =
  ext :: 'x
  heap :: "pydict list"
  trace :: "'ev list"

type_synonym ('s, 'a) prog = "'s \<Rightarrow> (exn + 'a) \<times> 's"

type_synonym ('x, 'a) extern = "'x \<Rightarrow> (exn + 'a) \<times> 'x"

definition return :: "'a \<Rightarrow> ('s, 'a) prog" where
  "return a w = (Inr a, w)"

definition raise :: "exn \<Rightarrow> ('s, 'a) prog" where
  "raise e w = (Inl e, w)"

definition lift :: "exn + 'a \<Rightarrow> ('s, 'a) prog" where
  "lift r w = (r, w)"

text \<open>Sequencing: an exception ends the run at once, with the state reached so far.\<close>

definition bindE :: "('s, 'a) prog \<Rightarrow> ('a \<Rightarrow> ('s, 'b) prog) \<Rightarrow> ('s, 'b) prog" where
  "bindE m k w = (case m w of (Inl e, w') \<Rightarrow> (Inl e, w') | (Inr a, w') \<Rightarrow> k a w')"

text \<open>A call of a collaborator runs it on the outside state and records the call.\<close>

definition call :: "(exn + 'a \<Rightarrow> 'ev) \<Rightarrow> ('x, 'a) extern \<Rightarrow> (('x, 'ev) world, 'a) prog" where
  "call ev f w =
     (case f (ext w) of
        (r, x') \<Rightarrow> (r, w\<lparr>ext := x', trace := trace w @ [ev r]\<rparr>))"

text \<open>The calls recorded between two states of one run.\<close>

definition events_since :: "('x, 'ev) world \<Rightarrow> ('x, 'ev) world \<Rightarrow> 'ev list" where
  "events_since w w' = drop (length (trace w)) (trace w')"

section \<open>The collaborators\<close>

text \<open>
  \<open>GraphRagConfig\<close>: the one attribute that \<open>api.py\<close> reads is
  \<open>config.embeddings.vector_store\<close>, which is \<open>None\<close> or a reference to a dictionary.
  Everything else in the configuration is opaque.
\<close>

record TextEmbeddingConfig =
  vector_store :: "nat option"

record 'o GraphRagConfig =
  embeddings :: TextEmbeddingConfig
  settings :: 'o

text \<open>The result of \<open>search_engine.search\<close>; the modules read its \<open>response\<close> attribute.\<close>

record 'o SearchResult =
  response :: response
  context_data :: 'o

text \<open>The keyword arguments of \<open>api.generate_indexing_prompts\<close>.\<close>

record 'o generate_kwargs =
  kw_config :: 'o
  kw_root :: string
  kw_chunk_size :: int
  kw_limit :: int
  kw_select :: string
  kw_domain :: string
  kw_language :: "string option"
  kw_max_tokens :: int
  kw_skip_entity_types :: bool
  kw_min_examples_required :: int
  kw_n_subset_max :: int
  kw_k :: int

text \<open>The arguments of \<open>get_global_search_engine\<close> and of \<open>get_local_search_engine\<close>.\<close>

record 'o global_engine_args =
  ge_config :: "'o GraphRagConfig"
  ge_reports :: 'o
  ge_entities :: 'o
  ge_response_type :: string

record 'o local_engine_args =
  le_config :: "'o GraphRagConfig"
  le_reports :: 'o
  le_text_units :: 'o
  le_entities :: 'o
  le_relationships :: 'o
  le_covariates :: "(string \<times> 'o list) list"
  le_description_embedding_store :: 'o
  le_response_type :: string

text \<open>
  Every name that the two modules import or reach through an object they are given, in
  the order of the source: first those of \<open>cli.py\<close> (with the methods of the path and
  file objects), then those of \<open>api.py\<close>.  \<open>reporter\<close> is the reporter object that
  \<open>api.py\<close> creates when it is imported; \<open>VectorStoreType_LanceDB\<close> is the constant
  \<open>VectorStoreType.LanceDB\<close>.
\<close>

record ('x, 'o) env =
  PrintProgressReporter :: "string \<Rightarrow> ('x, 'o) extern"
  read_config_parameters :: "string \<Rightarrow> 'o \<Rightarrow> string \<Rightarrow> ('x, 'o) extern"
  generate_indexing_prompts :: "'o generate_kwargs \<Rightarrow> ('x, ustr list) extern"
  reporter_info :: "'o \<Rightarrow> message \<Rightarrow> ('x, unit) extern"
  reporter_success :: "'o \<Rightarrow> message \<Rightarrow> ('x, unit) extern"
  Path_mkdir :: "path \<Rightarrow> bool \<Rightarrow> bool \<Rightarrow> ('x, unit) extern"
  Path_open :: "path \<Rightarrow> string \<Rightarrow> ('x, 'o) extern"
  file_write :: "'o \<Rightarrow> byte list \<Rightarrow> ('x, unit) extern"
  file_close :: "'o \<Rightarrow> ('x, unit) extern"
  reporter :: 'o
  VectorStoreType_LanceDB :: pyval
  get_vector_store :: "pyval \<Rightarrow> pydict \<Rightarrow> ('x, 'o) extern"
  connect :: "'o \<Rightarrow> pydict \<Rightarrow> ('x, unit) extern"
  store_entity_semantic_embeddings :: "'o \<Rightarrow> 'o \<Rightarrow> ('x, 'o) extern"
  LanceDBVectorStore :: "pyval \<Rightarrow> ('x, 'o) extern"
  get_db_connection :: "'o \<Rightarrow> ('x, 'o) extern"
  get_collection_name :: "'o \<Rightarrow> ('x, pyval) extern"
  open_table :: "'o \<Rightarrow> pyval \<Rightarrow> ('x, 'o) extern"
  set_document_collection :: "'o \<Rightarrow> 'o \<Rightarrow> ('x, unit) extern"
  read_indexer_reports :: "'o \<Rightarrow> 'o \<Rightarrow> int \<Rightarrow> ('x, 'o) extern"
  read_indexer_entities :: "'o \<Rightarrow> 'o \<Rightarrow> int \<Rightarrow> ('x, 'o) extern"
  read_indexer_covariates :: "'o \<Rightarrow> ('x, 'o list) extern"
  read_indexer_text_units :: "'o \<Rightarrow> ('x, 'o) extern"
  read_indexer_relationships :: "'o \<Rightarrow> ('x, 'o) extern"
  get_global_search_engine :: "'o global_engine_args \<Rightarrow> ('x, 'o) extern"
  get_local_search_engine :: "'o local_engine_args \<Rightarrow> ('x, 'o) extern"
  search :: "'o \<Rightarrow> string \<Rightarrow> ('x, 'o SearchResult) extern"

section \<open>\<open>graphrag/prompt_tune/cli.py\<close>\<close>

definition ENTITY_EXTRACTION_FILENAME :: string where
  "ENTITY_EXTRACTION_FILENAME = ''entity_extraction.txt''"

definition ENTITY_SUMMARIZATION_FILENAME :: string where
  "ENTITY_SUMMARIZATION_FILENAME = ''summarize_descriptions.txt''"

definition COMMUNITY_SUMMARIZATION_FILENAME :: string where
  "COMMUNITY_SUMMARIZATION_FILENAME = ''community_report.txt''"

text \<open>The parameters of \<open>prompt_tune\<close>.\<close>

record prompt_tune_args =
  arg_config :: string
  arg_root :: string
  arg_domain :: string
  arg_select :: string
  arg_limit :: int
  arg_max_tokens :: int
  arg_chunk_size :: int
  arg_language :: "string option"
  arg_skip_entity_types :: bool
  arg_output :: string
  arg_n_subset_max :: int
  arg_k :: int
  arg_min_examples_required :: int

datatype 'o cli_event =
    EvPrintProgressReporter string "exn + 'o"
  | EvReadConfigParameters string 'o string "exn + 'o"
  | EvGenerateIndexingPrompts "'o generate_kwargs" "exn + ustr list"
  | EvInfo 'o message "exn + unit"
  | EvMkdir path bool bool "exn + unit"
  | EvOpen path string "exn + 'o"
  | EvWrite 'o "byte list" "exn + unit"
  | EvClose 'o "exn + unit"

text \<open>
  \<open>with p.open("wb") as file: body\<close>.  The file is opened first; when the body ends,
  normally or by an exception, the file is closed.  An exception of the body propagates
  after the close, unless the close raises itself.
\<close>

definition with_open_wb ::
  "('x, 'o) env \<Rightarrow> path \<Rightarrow> ('o \<Rightarrow> (('x, 'o cli_event) world, unit) prog)
     \<Rightarrow> (('x, 'o cli_event) world, unit) prog" where
  "with_open_wb env p body =
     bindE (call (EvOpen p ''wb'') (Path_open env p ''wb'')) (\<lambda>file w.
       case body file w of
         (r, w1) \<Rightarrow>
           (case call (EvClose file) (file_close env file) w1 of
              (Inl e, w2) \<Rightarrow> (Inl e, w2)
            | (Inr u, w2) \<Rightarrow> (r, w2)))"

text \<open>\<open>file.write(prompts[i].encode(encoding="utf-8", errors="strict"))\<close>\<close>

definition write_prompt ::
  "('x, 'o) env \<Rightarrow> ustr list \<Rightarrow> nat \<Rightarrow> 'o \<Rightarrow> (('x, 'o cli_event) world, unit) prog" where
  "write_prompt env prompts i file =
     bindE (lift (getitem prompts i)) (\<lambda>prompt.
     bindE (lift (encode_utf8_strict prompt)) (\<lambda>data.
     call (EvWrite file data) (file_write env file data)))"

definition prompt_tune ::
  "('x, 'o) env \<Rightarrow> prompt_tune_args \<Rightarrow> (('x, 'o cli_event) world, unit) prog" where
  "prompt_tune env a =
     bindE (call (EvPrintProgressReporter '''') (PrintProgressReporter env '''')) (\<lambda>reporter.
     bindE (call (EvReadConfigParameters (arg_root a) reporter (arg_config a))
              (read_config_parameters env (arg_root a) reporter (arg_config a))) (\<lambda>graph_config.
     let kwargs = \<lparr>kw_config = graph_config, kw_root = arg_root a,
                    kw_chunk_size = arg_chunk_size a, kw_limit = arg_limit a,
                    kw_select = arg_select a, kw_domain = arg_domain a,
                    kw_language = arg_language a, kw_max_tokens = arg_max_tokens a,
                    kw_skip_entity_types = arg_skip_entity_types a,
                    kw_min_examples_required = arg_min_examples_required a,
                    kw_n_subset_max = arg_n_subset_max a, kw_k = arg_k a\<rparr> in
     bindE (call (EvGenerateIndexingPrompts kwargs)
              (generate_indexing_prompts env kwargs)) (\<lambda>prompts.
     let output_path = Path (arg_output a) in
     if bool_Path output_path then
       let info = [Lit ''Writing prompts to '', FmtPath output_path] in
       bindE (call (EvInfo reporter info) (reporter_info env reporter info)) (\<lambda>u.
       bindE (call (EvMkdir output_path True True)
                (Path_mkdir env output_path True True)) (\<lambda>u.
       let entity_extraction_prompt_path =
             PathJoin output_path ENTITY_EXTRACTION_FILENAME;
           entity_summarization_prompt_path =
             PathJoin output_path ENTITY_SUMMARIZATION_FILENAME;
           community_summarization_prompt_path =
             PathJoin output_path COMMUNITY_SUMMARIZATION_FILENAME in
       bindE (with_open_wb env entity_extraction_prompt_path
                (write_prompt env prompts 0)) (\<lambda>u.
       bindE (with_open_wb env entity_summarization_prompt_path
                (write_prompt env prompts 1)) (\<lambda>u.
       with_open_wb env community_summarization_prompt_path
         (write_prompt env prompts 2)))))
     else return ())))"

section \<open>\<open>graphrag/query/api.py\<close>\<close>

subsection \<open>Dictionaries on the heap\<close>

text \<open>
  A dictionary object is a cell of the heap, and a variable that holds a dictionary holds
  the index of its cell.  \<open>{}\<close> allocates a new cell; reading goes through the reference,
  and \<open>update\<close> writes the cell in place, so that every holder of the reference sees it.
\<close>

definition alloc :: "pydict \<Rightarrow> (('x, 'ev) world, nat) prog" where
  "alloc d w = (Inr (length (heap w)), w\<lparr>heap := heap w @ [d]\<rparr>)"

definition load :: "nat \<Rightarrow> (('x, 'ev) world, pydict) prog" where
  "load a w =
     (if a < length (heap w) then (Inr (heap w ! a), w) else (Inl DanglingReference, w))"

definition store :: "nat \<Rightarrow> pydict \<Rightarrow> (('x, 'ev) world, unit) prog" where
  "store a d w =
     (if a < length (heap w) then (Inr (), w\<lparr>heap := (heap w)[a := d]\<rparr>)
      else (Inl DanglingReference, w))"

datatype 'o api_event =
    EvReporterInfo 'o message "exn + unit"
  | EvReporterSuccess 'o message "exn + unit"
  | EvGetVectorStore pyval pydict "exn + 'o"
  | EvConnect 'o pydict "exn + unit"
  | EvStoreEntitySemanticEmbeddings 'o 'o "exn + 'o"
  | EvLanceDBVectorStore pyval "exn + 'o"
  | EvGetDbConnection 'o "exn + 'o"
  | EvGetCollectionName 'o "exn + pyval"
  | EvOpenTable 'o pyval "exn + 'o"
  | EvSetDocumentCollection 'o 'o "exn + unit"
  | EvReadIndexerReports 'o 'o int "exn + 'o"
  | EvReadIndexerEntities 'o 'o int "exn + 'o"
  | EvReadIndexerCovariates 'o "exn + 'o list"
  | EvReadIndexerTextUnits 'o "exn + 'o"
  | EvReadIndexerRelationships 'o "exn + 'o"
  | EvGetGlobalSearchEngine "'o global_engine_args" "exn + 'o"
  | EvGetLocalSearchEngine "'o local_engine_args" "exn + 'o"
  | EvSearch 'o string "exn + 'o SearchResult"

subsection \<open>\<open>__get_embedding_description_store\<close>\<close>

text \<open>
  \<open>if not config_args: config_args = {}\<close>: \<open>None\<close> and the empty dictionary are both
  replaced by a new dictionary; any other dictionary is kept, by reference.
\<close>

definition or_new_dict :: "nat option \<Rightarrow> (('x, 'ev) world, nat) prog" where
  "or_new_dict r =
     (case r of
        None \<Rightarrow> alloc []
      | Some a \<Rightarrow> bindE (load a) (\<lambda>d. if dict_truthy d then return a else alloc []))"

definition get_embedding_description_store ::
  "('x, 'o) env \<Rightarrow> 'o \<Rightarrow> pyval \<Rightarrow> nat option \<Rightarrow> (('x, 'o api_event) world, 'o) prog" where
  "get_embedding_description_store env entities vector_store_type config_args0 =
     bindE (or_new_dict config_args0) (\<lambda>config_args.
     bindE (load config_args) (\<lambda>d.
     let collection_name =
           dict_get d ''query_collection_name'' (PStr ''entity_description_embeddings'') in
     bindE (load config_args) (\<lambda>d.
     bindE (store config_args (dict_update d ''collection_name'' collection_name)) (\<lambda>u.
     bindE (load config_args) (\<lambda>kwargs.
     bindE (call (EvGetVectorStore vector_store_type kwargs)
              (get_vector_store env vector_store_type kwargs)) (\<lambda>description_embedding_store.
     bindE (load config_args) (\<lambda>kwargs.
     bindE (call (EvConnect description_embedding_store kwargs)
              (connect env description_embedding_store kwargs)) (\<lambda>u.
     bindE (load config_args) (\<lambda>d.
     if truthy (dict_get d ''overwrite'' (PBool False)) then
       bindE (call (EvStoreEntitySemanticEmbeddings entities description_embedding_store)
                (store_entity_semantic_embeddings env entities description_embedding_store))
         (\<lambda>u. return description_embedding_store)
     else
       bindE (call (EvLanceDBVectorStore collection_name)
                (LanceDBVectorStore env collection_name)) (\<lambda>description_embedding_store.
       bindE (load config_args) (\<lambda>d.
       let kwargs = [(''db_uri'', dict_get d ''db_uri'' (PStr ''./lancedb''))] in
       bindE (call (EvConnect description_embedding_store kwargs)
                (connect env description_embedding_store kwargs)) (\<lambda>u.
       bindE (call (EvGetDbConnection description_embedding_store)
                (get_db_connection env description_embedding_store)) (\<lambda>db_connection.
       bindE (call (EvGetCollectionName description_embedding_store)
                (get_collection_name env description_embedding_store)) (\<lambda>name.
       bindE (call (EvOpenTable db_connection name)
                (open_table env db_connection name)) (\<lambda>table.
       bindE (call (EvSetDocumentCollection description_embedding_store table)
                (set_document_collection env description_embedding_store table)) (\<lambda>u.
       return description_embedding_store))))))))))))))))"

subsection \<open>\<open>global_search\<close>\<close>

definition global_search ::
  "('x, 'o) env \<Rightarrow> 'o GraphRagConfig \<Rightarrow> 'o \<Rightarrow> 'o \<Rightarrow> 'o \<Rightarrow> int \<Rightarrow> string \<Rightarrow> string
     \<Rightarrow> (('x, 'o api_event) world, response) prog" where
  "global_search env config final_nodes final_entities final_community_reports
       community_level response_type query =
     bindE (call (EvReadIndexerReports final_community_reports final_nodes community_level)
              (read_indexer_reports env final_community_reports final_nodes community_level))
       (\<lambda>reports.
     bindE (call (EvReadIndexerEntities final_nodes final_entities community_level)
              (read_indexer_entities env final_nodes final_entities community_level))
       (\<lambda>entities.
     let args = \<lparr>ge_config = config, ge_reports = reports, ge_entities = entities,
                  ge_response_type = response_type\<rparr> in
     bindE (call (EvGetGlobalSearchEngine args) (get_global_search_engine env args))
       (\<lambda>search_engine.
     bindE (call (EvSearch search_engine query) (search env search_engine query)) (\<lambda>result.
     let msg = [Lit ''Global Search Response: '', FmtResponse (response result)] in
     bindE (call (EvReporterSuccess (reporter env) msg)
              (reporter_success env (reporter env) msg)) (\<lambda>u.
     return (response result))))))"

subsection \<open>\<open>local_search\<close>\<close>

text \<open>
  \<open>config.embeddings.vector_store if config.embeddings.vector_store else {}\<close> keeps a
  non-empty dictionary by reference, exactly as \<open>or_new_dict\<close> does.  The arguments of
  \<open>get_local_search_engine\<close> are evaluated from left to right.
\<close>

definition local_search ::
  "('x, 'o) env \<Rightarrow> 'o GraphRagConfig \<Rightarrow> 'o \<Rightarrow> 'o \<Rightarrow> 'o \<Rightarrow> 'o \<Rightarrow> 'o \<Rightarrow> 'o option
     \<Rightarrow> int \<Rightarrow> string \<Rightarrow> string \<Rightarrow> (('x, 'o api_event) world, response) prog" where
  "local_search env config final_nodes final_entities final_community_reports
       final_text_units final_relationships final_covariates
       community_level response_type query =
     bindE (or_new_dict (vector_store (embeddings config))) (\<lambda>vector_store_args.
     bindE (load vector_store_args) (\<lambda>d.
     let msg = [Lit ''Vector Store Args: '', FmtDict d] in
     bindE (call (EvReporterInfo (reporter env) msg)
              (reporter_info env (reporter env) msg)) (\<lambda>u.
     bindE (load vector_store_args) (\<lambda>d.
     let vector_store_type = dict_get d ''type'' (VectorStoreType_LanceDB env) in
     bindE (call (EvReadIndexerEntities final_nodes final_entities community_level)
              (read_indexer_entities env final_nodes final_entities community_level))
       (\<lambda>entities.
     bindE (get_embedding_description_store env entities vector_store_type
              (Some vector_store_args)) (\<lambda>description_embedding_store.
     bindE (case final_covariates of
              Some df \<Rightarrow>
                call (EvReadIndexerCovariates df) (read_indexer_covariates env df)
            | None \<Rightarrow> return []) (\<lambda>covariates.
     bindE (call (EvReadIndexerReports final_community_reports final_nodes community_level)
              (read_indexer_reports env final_community_reports final_nodes community_level))
       (\<lambda>reports.
     bindE (call (EvReadIndexerTextUnits final_text_units)
              (read_indexer_text_units env final_text_units)) (\<lambda>text_units.
     bindE (call (EvReadIndexerRelationships final_relationships)
              (read_indexer_relationships env final_relationships)) (\<lambda>relationships.
     let args = \<lparr>le_config = config, le_reports = reports, le_text_units = text_units,
                  le_entities = entities, le_relationships = relationships,
                  le_covariates = [(''claims'', covariates)],
                  le_description_embedding_store = description_embedding_store,
                  le_response_type = response_type\<rparr> in
     bindE (call (EvGetLocalSearchEngine args) (get_local_search_engine env args))
       (\<lambda>search_engine.
     bindE (call (EvSearch search_engine query) (search env search_engine query)) (\<lambda>result.
     let msg = [Lit ''Local Search Response: '', FmtResponse (response result)] in
     bindE (call (EvReporterSuccess (reporter env) msg)
              (reporter_success env (reporter env) msg)) (\<lambda>u.
     return (response result))))))))))))))"

section \<open>Reading the record of calls\<close>

text \<open>The exception with which a call ended, if it raised.\<close>

definition failure :: "exn + 'a \<Rightarrow> exn option" where
  "failure r = (case r of Inl e \<Rightarrow> Some e | Inr v \<Rightarrow> None)"

fun cli_raised :: "'o cli_event \<Rightarrow> exn option" where
  "cli_raised (EvPrintProgressReporter s r) = failure r"
| "cli_raised (EvReadConfigParameters root rep config r) = failure r"
| "cli_raised (EvGenerateIndexingPrompts kwargs r) = failure r"
| "cli_raised (EvInfo rep msg r) = failure r"
| "cli_raised (EvMkdir p parents exist_ok r) = failure r"
| "cli_raised (EvOpen p mode r) = failure r"
| "cli_raised (EvWrite fobj data r) = failure r"
| "cli_raised (EvClose fobj r) = failure r"


fun is_generate :: "'o cli_event \<Rightarrow> bool" where
  "is_generate (EvGenerateIndexingPrompts kwargs r) = True"
| "is_generate ev = False"

fun is_write :: "'o cli_event \<Rightarrow> bool" where
  "is_write (EvWrite fobj data r) = True"
| "is_write ev = False"

text \<open>The calls that touch the file system: \<open>mkdir\<close>, \<open>open\<close>, \<open>write\<close> and the close.\<close>

fun file_event :: "'o cli_event \<Rightarrow> bool" where
  "file_event (EvMkdir p parents exist_ok r) = True"
| "file_event (EvOpen p mode r) = True"
| "file_event (EvWrite fobj data r) = True"
| "file_event (EvClose fobj r) = True"
| "file_event ev = False"


text \<open>
  The outcome of a \<open>with\<close> block whose body ended with \<open>body\<close> and whose close ended
  with \<open>closed\<close>.
\<close>

definition outcome_of_block :: "exn + unit \<Rightarrow> exn + unit \<Rightarrow> exn + unit" where
  "outcome_of_block body closed = (case closed of Inl e \<Rightarrow> Inl e | Inr u \<Rightarrow> body)"

fun api_raised :: "'o api_event \<Rightarrow> exn option" where
  "api_raised (EvReporterInfo rep msg r) = failure r"
| "api_raised (EvReporterSuccess rep msg r) = failure r"
| "api_raised (EvGetVectorStore t kwargs r) = failure r"
| "api_raised (EvConnect st kwargs r) = failure r"
| "api_raised (EvStoreEntitySemanticEmbeddings ents st r) = failure r"
| "api_raised (EvLanceDBVectorStore n r) = failure r"
| "api_raised (EvGetDbConnection st r) = failure r"
| "api_raised (EvGetCollectionName st r) = failure r"
| "api_raised (EvOpenTable c n r) = failure r"
| "api_raised (EvSetDocumentCollection st t r) = failure r"
| "api_raised (EvReadIndexerReports a b l r) = failure r"
| "api_raised (EvReadIndexerEntities a b l r) = failure r"
| "api_raised (EvReadIndexerCovariates a r) = failure r"
| "api_raised (EvReadIndexerTextUnits a r) = failure r"
| "api_raised (EvReadIndexerRelationships a r) = failure r"
| "api_raised (EvGetGlobalSearchEngine args r) = failure r"
| "api_raised (EvGetLocalSearchEngine args r) = failure r"
| "api_raised (EvSearch eng q r) = failure r"

text \<open>The name under which the source calls the collaborator of an event.\<close>

fun callee :: "'o api_event \<Rightarrow> string" where
  "callee (EvReporterInfo rep msg r) = ''reporter.info''"
| "callee (EvReporterSuccess rep msg r) = ''reporter.success''"
| "callee (EvGetVectorStore t kwargs r) = ''VectorStoreFactory.get_vector_store''"
| "callee (EvConnect st kwargs r) = ''connect''"
| "callee (EvStoreEntitySemanticEmbeddings ents st r) = ''store_entity_semantic_embeddings''"
| "callee (EvLanceDBVectorStore n r) = ''LanceDBVectorStore''"
| "callee (EvGetDbConnection st r) = ''db_connection''"
| "callee (EvGetCollectionName st r) = ''collection_name''"
| "callee (EvOpenTable c n r) = ''open_table''"
| "callee (EvSetDocumentCollection st t r) = ''document_collection''"
| "callee (EvReadIndexerReports a b l r) = ''read_indexer_reports''"
| "callee (EvReadIndexerEntities a b l r) = ''read_indexer_entities''"
| "callee (EvReadIndexerCovariates a r) = ''read_indexer_covariates''"
| "callee (EvReadIndexerTextUnits a r) = ''read_indexer_text_units''"
| "callee (EvReadIndexerRelationships a r) = ''read_indexer_relationships''"
| "callee (EvGetGlobalSearchEngine args r) = ''get_global_search_engine''"
| "callee (EvGetLocalSearchEngine args r) = ''get_local_search_engine''"
| "callee (EvSearch eng q r) = ''search''"

text \<open>
  The dictionary that \<open>__get_embedding_description_store\<close> works on, as the heap \<open>h\<close>
  holds it when the function is entered: the one referred to, or an empty one for \<open>None\<close>.
\<close>

definition config_dict :: "pydict list \<Rightarrow> nat option \<Rightarrow> pydict" where
  "config_dict h r = (case r of None \<Rightarrow> [] | Some a \<Rightarrow> h ! a)"

text \<open>
  What \<open>__get_embedding_description_store\<close> does to the dictionary it works on:
  \<open>config_args.update({"collection_name": collection_name})\<close>, where the name is the
  value under \<open>query_collection_name\<close> or the default.
\<close>

definition with_collection_name :: "pydict \<Rightarrow> pydict" where
  "with_collection_name d =
     dict_update d ''collection_name''
       (dict_get d ''query_collection_name'' (PStr ''entity_description_embeddings''))"

section \<open>Postconditions\<close>

text \<open>\<open>post m w Q\<close>: the run of \<open>m\<close> from \<open>w\<close> ends with an outcome and a state that satisfy \<open>Q\<close>.\<close>

definition post :: "('s, 'a) prog \<Rightarrow> 's \<Rightarrow> (exn + 'a \<Rightarrow> 's \<Rightarrow> bool) \<Rightarrow> bool" where
  "post m w Q = (case m w of (r, w') \<Rightarrow> Q r w')"

text \<open>
  \<open>spec h m Q\<close>: from every state whose heap is \<open>h\<close>, the run of \<open>m\<close> only adds calls to
  the record, and its outcome, its final heap and the calls it added satisfy \<open>Q\<close>.
\<close>

definition spec ::
  "pydict list \<Rightarrow> (('x, 'ev) world, 'a) prog \<Rightarrow> (exn + 'a \<Rightarrow> pydict list \<Rightarrow> 'ev list \<Rightarrow> bool)
     \<Rightarrow> bool" where
  "spec h m Q =
     (\<forall>w. heap w = h \<longrightarrow>
        (case m w of (r, w') \<Rightarrow> \<exists>evs. trace w' = trace w @ evs \<and> Q r (heap w') evs))"

section \<open>A simulated environment\<close>

text \<open>
  An environment in which every collaborator returns normally: objects are names, the
  file system is a list of directories and a table of file contents, the prompt
  generator returns the prompts it is given, and a LanceDB store knows the collection
  name it was built with.  It serves to run the functions on concrete inputs.
\<close>

datatype sim_obj = Obj string | FileObj path | LanceDB pyval

record sim_fs =
  sim_dirs :: "path list"
  sim_files :: "(path \<times> byte list) list"

definition sim_write :: "sim_obj \<Rightarrow> byte list \<Rightarrow> (sim_fs, unit) extern" where
  "sim_write fobj data fs =
     (case fobj of
        FileObj p \<Rightarrow>
          (case map_of (sim_files fs) p of
             None \<Rightarrow> (Inl (Raised ''closed file''), fs)
           | Some old \<Rightarrow>
               (Inr (), fs\<lparr>sim_files := AList.update p (old @ data) (sim_files fs)\<rparr>))
      | other \<Rightarrow> (Inl (Raised ''not a file''), fs))"

definition sim_env :: "ustr list \<Rightarrow> (sim_fs, sim_obj) env" where
  "sim_env prompts =
     \<lparr>PrintProgressReporter = (\<lambda>prefix fs. (Inr (Obj ''reporter''), fs)),
      read_config_parameters = (\<lambda>root rep config fs. (Inr (Obj ''graph_config''), fs)),
      generate_indexing_prompts = (\<lambda>kwargs fs. (Inr prompts, fs)),
      reporter_info = (\<lambda>rep msg fs. (Inr (), fs)),
      reporter_success = (\<lambda>rep msg fs. (Inr (), fs)),
      Path_mkdir = (\<lambda>p parents exist_ok fs.
         (Inr (), fs\<lparr>sim_dirs := List.insert p (sim_dirs fs)\<rparr>)),
      Path_open = (\<lambda>p mode fs.
         (Inr (FileObj p), fs\<lparr>sim_files := AList.update p [] (sim_files fs)\<rparr>)),
      file_write = sim_write,
      file_close = (\<lambda>fobj fs. (Inr (), fs)),
      reporter = Obj ''reporter'',
      VectorStoreType_LanceDB = PStr ''lancedb'',
      get_vector_store = (\<lambda>t kwargs fs. (Inr (Obj ''factory_store''), fs)),
      connect = (\<lambda>st kwargs fs. (Inr (), fs)),
      store_entity_semantic_embeddings = (\<lambda>ents st fs. (Inr st, fs)),
      LanceDBVectorStore = (\<lambda>n fs. (Inr (LanceDB n), fs)),
      get_db_connection = (\<lambda>st fs. (Inr (Obj ''db_connection''), fs)),
      get_collection_name = (\<lambda>st fs.
         (case st of
            LanceDB n \<Rightarrow> (Inr n, fs)
          | other \<Rightarrow> (Inl (Raised ''no attribute collection_name''), fs))),
      open_table = (\<lambda>c n fs. (Inr (Obj ''table''), fs)),
      set_document_collection = (\<lambda>st t fs. (Inr (), fs)),
      read_indexer_reports = (\<lambda>a b l fs. (Inr (Obj ''reports''), fs)),
      read_indexer_entities = (\<lambda>a b l fs. (Inr (Obj ''entities''), fs)),
      read_indexer_covariates = (\<lambda>a fs. (Inr [Obj ''claim''], fs)),
      read_indexer_text_units = (\<lambda>a fs. (Inr (Obj ''text_units''), fs)),
      read_indexer_relationships = (\<lambda>a fs. (Inr (Obj ''relationships''), fs)),
      get_global_search_engine = (\<lambda>args fs. (Inr (Obj ''global_engine''), fs)),
      get_local_search_engine = (\<lambda>args fs. (Inr (Obj ''local_engine''), fs)),
      search = (\<lambda>eng q fs.
         (Inr \<lparr>response = RStr ''answer'', context_data = Obj ''context''\<rparr>, fs))\<rparr>"

definition sim_world :: "pydict list \<Rightarrow> (sim_fs, 'ev) world" where
  "sim_world h = \<lparr>ext = \<lparr>sim_dirs = [], sim_files = []\<rparr>, heap = h, trace = []\<rparr>"

definition sim_args :: prompt_tune_args where
  "sim_args =
     \<lparr>arg_config = ''settings.yaml'', arg_root = ''.'', arg_domain = ''science'',
      arg_select = ''random'', arg_limit = 15, arg_max_tokens = 2000, arg_chunk_size = 200,
      arg_language = None, arg_skip_entity_types = False, arg_output = ''prompts'',
      arg_n_subset_max = 300, arg_k = 15, arg_min_examples_required = 2\<rparr>"

definition sim_config :: "nat option \<Rightarrow> sim_obj GraphRagConfig" where
  "sim_config r = \<lparr>embeddings = \<lparr>vector_store = r\<rparr>, settings = Obj ''settings''\<rparr>"

section \<open>Rules for postconditions\<close>

lemma postD: "post m w Q \<Longrightarrow> m w = (r, w') \<Longrightarrow> Q r w'"
  by (simp add: post_def)

lemma post_return: "Q (Inr a) w \<Longrightarrow> post (return a) w Q"
  by (simp add: post_def return_def)

lemma post_call:
  assumes "\<And>r xa. Q r (w\<lparr>ext := xa, trace := trace w @ [ev r]\<rparr>)"
  shows "post (call ev f) w Q"
  using assms by (simp add: post_def call_def split: prod.splits)

lemma post_bind_call:
  assumes "\<And>e xa. Q (Inl e) (w\<lparr>ext := xa, trace := trace w @ [ev (Inl e)]\<rparr>)"
    and "\<And>a xa. post (k a) (w\<lparr>ext := xa, trace := trace w @ [ev (Inr a)]\<rparr>) Q"
  shows "post (bindE (call ev f) k) w Q"
proof -
  obtain r x1 where f: "f (ext w) = (r, x1)" by (cases "f (ext w)")
  show ?thesis
  proof (cases r)
    case (Inl e)
    with f assms(1)[of e x1] show ?thesis by (simp add: post_def call_def bindE_def)
  next
    case (Inr a)
    with f assms(2)[of a x1] show ?thesis by (simp add: post_def call_def bindE_def)
  qed
qed

lemma post_bind_lift:
  assumes "\<And>e. r = Inl e \<Longrightarrow> Q (Inl e) w" and "\<And>a. r = Inr a \<Longrightarrow> post (k a) w Q"
  shows "post (bindE (lift r) k) w Q"
  using assms by (cases r) (simp_all add: post_def lift_def bindE_def)

lemma bindE_return: "bindE m return = m"
  by (rule ext) (simp add: bindE_def return_def split: prod.splits sum.splits)

lemma post_bind_write_block:
  assumes op: "\<And>e xa. Q (Inl e) (w\<lparr>ext := xa, trace := trace w @ [EvOpen p ''wb'' (Inl e)]\<rparr>)"
    and ix: "\<And>fobj e rc xa. getitem prompts i = Inl e \<Longrightarrow>
          Q (outcome_of_block (Inl e) rc)
            (w\<lparr>ext := xa, trace := trace w @ [EvOpen p ''wb'' (Inr fobj), EvClose fobj rc]\<rparr>)"
    and en: "\<And>fobj s e rc xa. getitem prompts i = Inr s \<Longrightarrow> encode_utf8_strict s = Inl e \<Longrightarrow>
          Q (outcome_of_block (Inl e) rc)
            (w\<lparr>ext := xa, trace := trace w @ [EvOpen p ''wb'' (Inr fobj), EvClose fobj rc]\<rparr>)"
    and wr: "\<And>fobj s data rw rc e xa.
          getitem prompts i = Inr s \<Longrightarrow> encode_utf8_strict s = Inr data \<Longrightarrow>
          outcome_of_block rw rc = Inl e \<Longrightarrow>
          Q (Inl e)
            (w\<lparr>ext := xa, trace := trace w @
               [EvOpen p ''wb'' (Inr fobj), EvWrite fobj data rw, EvClose fobj rc]\<rparr>)"
    and ok: "\<And>fobj s data xa.
          getitem prompts i = Inr s \<Longrightarrow> encode_utf8_strict s = Inr data \<Longrightarrow>
          post (k ())
            (w\<lparr>ext := xa, trace := trace w @
               [EvOpen p ''wb'' (Inr fobj), EvWrite fobj data (Inr ()),
                EvClose fobj (Inr ())]\<rparr>) Q"
  shows "post (bindE (with_open_wb env p (write_prompt env prompts i)) k) w Q"
proof -
  obtain ro x1 where o: "Path_open env p ''wb'' (ext w) = (ro, x1)"
    by (cases "Path_open env p ''wb'' (ext w)")
  show ?thesis
  proof (cases ro)
    case (Inl e)
    with o op[where e=e and xa=x1] show ?thesis
      by (simp add: post_def with_open_wb_def bindE_def call_def)
  next
    case (Inr fobj)
    obtain rc x2 where c: "file_close env fobj x1 = (rc, x2)"
      by (cases "file_close env fobj x1")
    show ?thesis
    proof (cases "getitem prompts i")
      case gi: (Inl e)
      with o Inr c ix[OF gi, where fobj=fobj and rc=rc and xa=x2] show ?thesis
        by (simp add: post_def with_open_wb_def write_prompt_def bindE_def call_def lift_def
            outcome_of_block_def split: sum.splits)
    next
      case gi: (Inr s)
      show ?thesis
      proof (cases "encode_utf8_strict s")
        case ec: (Inl e)
        with o Inr c gi en[OF gi ec, where fobj=fobj and rc=rc and xa=x2] show ?thesis
          by (simp add: post_def with_open_wb_def write_prompt_def bindE_def call_def lift_def
              outcome_of_block_def split: sum.splits)
      next
        case ec: (Inr data)
        obtain rw x3 where wq: "file_write env fobj data x1 = (rw, x3)"
          by (cases "file_write env fobj data x1")
        obtain rc' x4 where c': "file_close env fobj x3 = (rc', x4)"
          by (cases "file_close env fobj x3")
        show ?thesis
        proof (cases "outcome_of_block rw rc'")
          case ob: (Inl e)
          with o Inr gi ec wq c' wr[OF gi ec ob, where fobj=fobj and xa=x4] show ?thesis
            by (auto simp add: post_def with_open_wb_def write_prompt_def bindE_def call_def
                lift_def outcome_of_block_def split: sum.splits)
        next
          case ob: (Inr u)
          then have "rw = Inr ()" "rc' = Inr ()"
            by (auto simp: outcome_of_block_def split: sum.splits)
          with o Inr gi ec wq c' ok[OF gi ec, where fobj=fobj and xa=x4] show ?thesis
            by (simp add: post_def with_open_wb_def write_prompt_def bindE_def call_def lift_def)
        qed
      qed
    qed
  qed
qed

lemma post_write_block:
  assumes op: "\<And>e xa. Q (Inl e) (w\<lparr>ext := xa, trace := trace w @ [EvOpen p ''wb'' (Inl e)]\<rparr>)"
    and ix: "\<And>fobj e rc xa. getitem prompts i = Inl e \<Longrightarrow>
          Q (outcome_of_block (Inl e) rc)
            (w\<lparr>ext := xa, trace := trace w @ [EvOpen p ''wb'' (Inr fobj), EvClose fobj rc]\<rparr>)"
    and en: "\<And>fobj s e rc xa. getitem prompts i = Inr s \<Longrightarrow> encode_utf8_strict s = Inl e \<Longrightarrow>
          Q (outcome_of_block (Inl e) rc)
            (w\<lparr>ext := xa, trace := trace w @ [EvOpen p ''wb'' (Inr fobj), EvClose fobj rc]\<rparr>)"
    and wr: "\<And>fobj s data rw rc e xa.
          getitem prompts i = Inr s \<Longrightarrow> encode_utf8_strict s = Inr data \<Longrightarrow>
          outcome_of_block rw rc = Inl e \<Longrightarrow>
          Q (Inl e)
            (w\<lparr>ext := xa, trace := trace w @
               [EvOpen p ''wb'' (Inr fobj), EvWrite fobj data rw, EvClose fobj rc]\<rparr>)"
    and ok: "\<And>fobj s data xa.
          getitem prompts i = Inr s \<Longrightarrow> encode_utf8_strict s = Inr data \<Longrightarrow>
          Q (Inr ())
            (w\<lparr>ext := xa, trace := trace w @
               [EvOpen p ''wb'' (Inr fobj), EvWrite fobj data (Inr ()),
                EvClose fobj (Inr ())]\<rparr>)"
  shows "post (with_open_wb env p (write_prompt env prompts i)) w Q"
  apply (subst bindE_return[symmetric])
  apply (rule post_bind_write_block)
      apply (rule op)
     apply (erule ix)
    apply (erule (1) en)
   apply (erule (2) wr)
  apply (rule post_return)
  apply (erule (1) ok)
  done

lemmas cli_rules =
  post_bind_call post_bind_write_block post_write_block post_bind_lift post_return post_call

subsection \<open>Rules for the programs of \<open>api.py\<close>\<close>

lemma specD:
  assumes "spec (heap w) m Q" and "m w = (r, w')"
  shows "Q r (heap w') (events_since w w')"
proof -
  from assms obtain evs where "trace w' = trace w @ evs" and "Q r (heap w') evs"
    by (auto simp: spec_def)
  then show ?thesis by (simp add: events_since_def)
qed

lemma specI:
  assumes "\<And>w r w'. heap w = h \<Longrightarrow> m w = (r, w') \<Longrightarrow>
             \<exists>evs. trace w' = trace w @ evs \<and> Q r (heap w') evs"
  shows "spec h m Q"
  using assms by (auto simp: spec_def)

lemma spec_runD:
  assumes "spec h m Q" and "heap w = h" and "m w = (r, w')"
  shows "\<exists>evs. trace w' = trace w @ evs \<and> Q r (heap w') evs"
  using assms by (auto simp: spec_def)

lemma spec_return: "Q (Inr a) h [] \<Longrightarrow> spec h (return a) Q"
  by (simp add: spec_def return_def)

lemma spec_call:
  assumes "\<And>r. Q r h [ev r]"
  shows "spec h (call ev f) Q"
  using assms by (simp add: spec_def call_def split: prod.splits)

lemma spec_bind:
  assumes m: "spec h m P"
    and err: "\<And>e h1 evs1. P (Inl e) h1 evs1 \<Longrightarrow> Q (Inl e) h1 evs1"
    and ok: "\<And>a h1 evs1. P (Inr a) h1 evs1 \<Longrightarrow> spec h1 (k a) (\<lambda>r h' evs. Q r h' (evs1 @ evs))"
  shows "spec h (bindE m k) Q"
  unfolding spec_def
proof (intro allI impI)
  fix w :: "('a, 'b) world"
  assume hw: "heap w = h"
  obtain r w1 where run: "m w = (r, w1)" by (cases "m w")
  with m hw obtain evs1 where t1: "trace w1 = trace w @ evs1" and p: "P r (heap w1) evs1"
    by (auto simp: spec_def)
  show "case bindE m k w of (r, w') \<Rightarrow> \<exists>evs. trace w' = trace w @ evs \<and> Q r (heap w') evs"
  proof (cases r)
    case (Inl e)
    with run t1 p err[of e "heap w1" evs1] show ?thesis
      by (auto simp: bindE_def)
  next
    case (Inr a)
    obtain r2 w2 where run2: "k a w1 = (r2, w2)" by (cases "k a w1")
    from ok[of a "heap w1" evs1] p Inr run2
    obtain evs2 where "trace w2 = trace w1 @ evs2" and "Q r2 (heap w2) (evs1 @ evs2)"
      by (auto simp: spec_def)
    with run Inr run2 t1 show ?thesis
      by (auto simp: bindE_def)
  qed
qed

lemma spec_bind_call:
  assumes "\<And>e. Q (Inl e) h [ev (Inl e)]"
    and "\<And>a. spec h (k a) (\<lambda>r h' evs. Q r h' (ev (Inr a) # evs))"
  shows "spec h (bindE (call ev f) k) Q"
proof (rule spec_bind[where P = "\<lambda>r h1 evs1. h1 = h \<and> evs1 = [ev r]"])
  show "spec h (call ev f) (\<lambda>r h1 evs1. h1 = h \<and> evs1 = [ev r])"
    by (rule spec_call) simp
next
  fix e h1 evs1 assume "h1 = h \<and> evs1 = [ev (Inl e)]"
  with assms(1)[of e] show "Q (Inl e) h1 evs1" by simp
next
  fix a h1 evs1 assume "h1 = h \<and> evs1 = [ev (Inr a)]"
  with assms(2)[of a] show "spec h1 (k a) (\<lambda>r h' evs. Q r h' (evs1 @ evs))" by simp
qed

lemma spec_bind_return: "spec h (k a) Q \<Longrightarrow> spec h (bindE (return a) k) Q"
  by (simp add: spec_def bindE_def return_def)

lemma spec_bind_alloc:
  assumes "spec (h @ [d]) (k (length h)) Q"
  shows "spec h (bindE (alloc d) k) Q"
proof (rule specI)
  fix w r w'
  assume hw: "heap w = h" and run: "bindE (alloc d) k w = (r, w')"
  then have "k (length h) (w\<lparr>heap := h @ [d]\<rparr>) = (r, w')"
    by (simp add: bindE_def alloc_def)
  from spec_runD[OF assms _ this] show "\<exists>evs. trace w' = trace w @ evs \<and> Q r (heap w') evs"
    by simp
qed

lemma spec_bind_load:
  assumes "\<not> a < length h \<Longrightarrow> Q (Inl DanglingReference) h []"
    and "a < length h \<Longrightarrow> spec h (k (h ! a)) Q"
  shows "spec h (bindE (load a) k) Q"
  using assms by (cases "a < length h") (auto simp: spec_def bindE_def load_def)

lemma spec_bind_store:
  assumes "\<not> a < length h \<Longrightarrow> Q (Inl DanglingReference) h []"
    and "a < length h \<Longrightarrow> spec (h[a := d]) (k ()) Q"
  shows "spec h (bindE (store a d) k) Q"
proof (rule specI)
  fix w r w'
  assume hw: "heap w = h" and run: "bindE (store a d) k w = (r, w')"
  show "\<exists>evs. trace w' = trace w @ evs \<and> Q r (heap w') evs"
  proof (cases "a < length h")
    case False
    with hw run assms(1) show ?thesis by (auto simp: bindE_def store_def)
  next
    case True
    with hw run have "k () (w\<lparr>heap := h[a := d]\<rparr>) = (r, w')"
      by (simp add: bindE_def store_def)
    from spec_runD[OF assms(2)[OF True] _ this] show ?thesis by simp
  qed
qed

lemma spec_bind_if:
  assumes "c \<Longrightarrow> spec h (bindE m1 k) Q" and "\<not> c \<Longrightarrow> spec h (bindE m2 k) Q"
  shows "spec h (bindE (if c then m1 else m2) k) Q"
  using assms by (cases c) simp_all

lemma spec_if:
  assumes "c \<Longrightarrow> spec h m1 Q" and "\<not> c \<Longrightarrow> spec h m2 Q"
  shows "spec h (if c then m1 else m2) Q"
  using assms by (cases c) simp_all

lemma spec_bind_case_option:
  assumes "opt = None \<Longrightarrow> spec h (bindE m k) Q"
    and "\<And>x. opt = Some x \<Longrightarrow> spec h (bindE (f x) k) Q"
  shows "spec h (bindE (case opt of None \<Rightarrow> m | Some x \<Rightarrow> f x) k) Q"
  using assms by (cases opt) simp_all

lemma or_new_dict_as_bind:
  "bindE (or_new_dict r) k =
     (case r of
        None \<Rightarrow> bindE (alloc []) k
      | Some a \<Rightarrow>
          bindE (load a) (\<lambda>d. if d \<noteq> [] then bindE (return a) k else bindE (alloc []) k))"
  by (rule ext)
    (auto simp: or_new_dict_def bindE_def load_def dict_truthy_def split: option.splits)

lemma spec_bind_or_new_dict:
  assumes "r = None \<Longrightarrow> spec (h @ [[]]) (k (length h)) Q"
    and "\<And>a. r = Some a \<Longrightarrow> \<not> a < length h \<Longrightarrow> Q (Inl DanglingReference) h []"
    and "\<And>a. r = Some a \<Longrightarrow> a < length h \<Longrightarrow> h ! a \<noteq> [] \<Longrightarrow> spec h (k a) Q"
    and "\<And>a. r = Some a \<Longrightarrow> a < length h \<Longrightarrow> h ! a = [] \<Longrightarrow>
           spec (h @ [[]]) (k (length h)) Q"
  shows "spec h (bindE (or_new_dict r) k) Q"
proof (cases r)
  case None
  with assms(1) show ?thesis
    by (simp add: or_new_dict_as_bind spec_bind_alloc)
next
  case (Some a)
  show ?thesis
    unfolding or_new_dict_as_bind Some option.case
  proof (rule spec_bind_load)
    assume "\<not> a < length h"
    with Some assms(2) show "Q (Inl DanglingReference) h []" by simp
  next
    assume lt: "a < length h"
    show "spec h (if h ! a \<noteq> [] then bindE (return a) k else bindE (alloc []) k) Q"
    proof (cases "h ! a = []")
      case True
      with assms(4)[OF Some lt] show ?thesis by (simp add: spec_bind_alloc)
    next
      case False
      with assms(3)[OF Some lt] show ?thesis by (simp add: spec_bind_return)
    qed
  qed
qed

lemmas spec_rules =
  spec_bind_call spec_bind_return spec_bind_if spec_bind_case_option spec_bind_alloc
  spec_bind_load spec_bind_store spec_bind_or_new_dict spec_return spec_call spec_if

lemma dict_get_update_other:
  "k \<noteq> k' \<Longrightarrow> dict_get (dict_update d k v) k' dflt = dict_get d k' dflt"
  by (simp add: dict_get_def dict_update_def update_conv')

section \<open>\<open>prompt_tune\<close>: the order of the steps\<close>



lemmas sim_defs =
  prompt_tune_def sim_env_def sim_args_def sim_world_def bindE_def call_def return_def
  lift_def with_open_wb_def write_prompt_def getitem_def encode_codepoint_def sim_write_def
  bool_Path_def Let_def ENTITY_EXTRACTION_FILENAME_def ENTITY_SUMMARIZATION_FILENAME_def
  COMMUNITY_SUMMARIZATION_FILENAME_def events_since_def


section \<open>\<open>prompt_tune\<close>: the files written\<close>

lemma prompt_tune_success_post:
  "post (prompt_tune env a) w (\<lambda>r w'. r = Inr () \<longrightarrow>
     (\<exists>rep gc ps f1 f2 f3 p0 p1 p2 b0 b1 b2.
     events_since w w' =
       [EvPrintProgressReporter [] (Inr rep),
        EvReadConfigParameters (arg_root a) rep (arg_config a) (Inr gc),
        EvGenerateIndexingPrompts
          \<lparr>kw_config = gc, kw_root = arg_root a,
             kw_chunk_size = arg_chunk_size a, kw_limit = arg_limit a,
             kw_select = arg_select a, kw_domain = arg_domain a,
             kw_language = arg_language a, kw_max_tokens = arg_max_tokens a,
             kw_skip_entity_types = arg_skip_entity_types a,
             kw_min_examples_required = arg_min_examples_required a,
             kw_n_subset_max = arg_n_subset_max a, kw_k = arg_k a\<rparr> (Inr ps),
        EvInfo rep [Lit ''Writing prompts to '', FmtPath (Path (arg_output a))] (Inr ()),
        EvMkdir (Path (arg_output a)) True True (Inr ()),
        EvOpen (PathJoin (Path (arg_output a)) ENTITY_EXTRACTION_FILENAME) ''wb'' (Inr f1),
        EvWrite f1 b0 (Inr ()), EvClose f1 (Inr ()),
        EvOpen (PathJoin (Path (arg_output a)) ENTITY_SUMMARIZATION_FILENAME) ''wb'' (Inr f2),
        EvWrite f2 b1 (Inr ()), EvClose f2 (Inr ()),
        EvOpen (PathJoin (Path (arg_output a)) COMMUNITY_SUMMARIZATION_FILENAME) ''wb''
          (Inr f3),
        EvWrite f3 b2 (Inr ()), EvClose f3 (Inr ())]
     \<and> getitem ps 0 = Inr p0 \<and> getitem ps 1 = Inr p1 \<and> getitem ps 2 = Inr p2
     \<and> encode_utf8_strict p0 = Inr b0 \<and> encode_utf8_strict p1 = Inr b1
     \<and> encode_utf8_strict p2 = Inr b2))"
  unfolding prompt_tune_def Let_def bool_Path_def if_True
  apply (intro cli_rules)
  apply (simp_all add: events_since_def outcome_of_block_def split: sum.splits)
  done

lemma prompt_tune_success_trace:
  assumes "prompt_tune env a w = (Inr u, w')"
  shows "\<exists>rep gc kw ps f1 f2 f3 b0 b1 b2.
     events_since w w' =
       [EvPrintProgressReporter [] (Inr rep),
        EvReadConfigParameters (arg_root a) rep (arg_config a) (Inr gc),
        EvGenerateIndexingPrompts kw (Inr ps),
        EvInfo rep [Lit ''Writing prompts to '', FmtPath (Path (arg_output a))] (Inr ()),
        EvMkdir (Path (arg_output a)) True True (Inr ()),
        EvOpen (PathJoin (Path (arg_output a)) ENTITY_EXTRACTION_FILENAME) ''wb'' (Inr f1),
        EvWrite f1 b0 (Inr ()), EvClose f1 (Inr ()),
        EvOpen (PathJoin (Path (arg_output a)) ENTITY_SUMMARIZATION_FILENAME) ''wb'' (Inr f2),
        EvWrite f2 b1 (Inr ()), EvClose f2 (Inr ()),
        EvOpen (PathJoin (Path (arg_output a)) COMMUNITY_SUMMARIZATION_FILENAME) ''wb''
          (Inr f3),
        EvWrite f3 b2 (Inr ()), EvClose f3 (Inr ())]
     \<and> 3 \<le> length ps
     \<and> encode_utf8_strict (ps ! 0) = Inr b0 \<and> encode_utf8_strict (ps ! 1) = Inr b1
     \<and> encode_utf8_strict (ps ! 2) = Inr b2"
proof -
  from postD[OF prompt_tune_success_post assms]
  obtain rep gc ps f1 f2 f3 p0 p1 p2 b0 b1 b2 kw where
    evs: "events_since w w' =
       [EvPrintProgressReporter [] (Inr rep),
        EvReadConfigParameters (arg_root a) rep (arg_config a) (Inr gc),
        EvGenerateIndexingPrompts kw (Inr ps),
        EvInfo rep [Lit ''Writing prompts to '', FmtPath (Path (arg_output a))] (Inr ()),
        EvMkdir (Path (arg_output a)) True True (Inr ()),
        EvOpen (PathJoin (Path (arg_output a)) ENTITY_EXTRACTION_FILENAME) ''wb'' (Inr f1),
        EvWrite f1 b0 (Inr ()), EvClose f1 (Inr ()),
        EvOpen (PathJoin (Path (arg_output a)) ENTITY_SUMMARIZATION_FILENAME) ''wb'' (Inr f2),
        EvWrite f2 b1 (Inr ()), EvClose f2 (Inr ()),
        EvOpen (PathJoin (Path (arg_output a)) COMMUNITY_SUMMARIZATION_FILENAME) ''wb''
          (Inr f3),
        EvWrite f3 b2 (Inr ()), EvClose f3 (Inr ())]"
    and g: "getitem ps 0 = Inr p0" "getitem ps 1 = Inr p1" "getitem ps 2 = Inr p2"
    and e: "encode_utf8_strict p0 = Inr b0" "encode_utf8_strict p1 = Inr b1"
      "encode_utf8_strict p2 = Inr b2"
    by auto
  from g have "3 \<le> length ps" "ps ! 0 = p0" "ps ! 1 = p1" "ps ! 2 = p2"
    by (auto simp: getitem_def split: if_splits)
  with evs e show ?thesis by blast
qed

text \<open>
  Claim C1, as the code has it.  The claim counts a call as successful as soon as
  \<open>read_config_parameters\<close> and \<open>generate_indexing_prompts\<close> have returned, but the
  writing itself can raise.  Here the generator returns three prompts, the first of them
  a lone surrogate: \<open>encode\<close> raises \<open>UnicodeEncodeError\<close> after the first file has been
  opened, so that file is left empty and the other two are never created.
\<close>

theorem prompt_tune_surrogate_counterexample:
  "prompt_tune (sim_env [[0xD800], [], []]) sim_args (sim_world []) =
     (Inl UnicodeEncodeError,
      \<lparr>ext = \<lparr>sim_dirs = [Path ''prompts''],
               sim_files = [(PathJoin (Path ''prompts'') ''entity_extraction.txt'', [])]\<rparr>,
       heap = [],
       trace =
         [EvPrintProgressReporter [] (Inr (Obj ''reporter'')),
          EvReadConfigParameters ''.'' (Obj ''reporter'') ''settings.yaml''
            (Inr (Obj ''graph_config'')),
          EvGenerateIndexingPrompts
            \<lparr>kw_config = Obj ''graph_config'', kw_root = ''.'', kw_chunk_size = 200,
               kw_limit = 15, kw_select = ''random'', kw_domain = ''science'',
               kw_language = None, kw_max_tokens = 2000, kw_skip_entity_types = False,
               kw_min_examples_required = 2, kw_n_subset_max = 300, kw_k = 15\<rparr>
            (Inr [[0xD800], [], []]),
          EvInfo (Obj ''reporter'')
            [Lit ''Writing prompts to '', FmtPath (Path ''prompts'')] (Inr ()),
          EvMkdir (Path ''prompts'') True True (Inr ()),
          EvOpen (PathJoin (Path ''prompts'') ''entity_extraction.txt'') ''wb''
            (Inr (FileObj (PathJoin (Path ''prompts'') ''entity_extraction.txt''))),
          EvClose (FileObj (PathJoin (Path ''prompts'') ''entity_extraction.txt''))
            (Inr ())]\<rparr>)"
  by (simp add: sim_defs)

text \<open>
  Claim C1, amended.  For every call of \<open>prompt_tune\<close> that returns normally, with any
  output string: the prompt generator returned a sequence \<open>ps\<close> of at least three
  prompts, and the calls that touch the file system are exactly these, in this order:
  \<open>mkdir\<close> on the output directory, and then, for each of \<open>entity_extraction.txt\<close>,
  \<open>summarize_descriptions.txt\<close> and \<open>community_report.txt\<close> in the output directory, the
  file is opened with mode \<open>wb\<close>, one write puts the strict UTF-8 encoding of the first,
  the second and the third prompt into it, and it is closed.
\<close>

theorem prompt_tune_writes_three_files:
  assumes "prompt_tune env a w = (Inr u, w')"
  shows "\<exists>kw ps f1 f2 f3 b0 b1 b2.
     filter is_generate (events_since w w') = [EvGenerateIndexingPrompts kw (Inr ps)] \<and>
     filter file_event (events_since w w') =
       [EvMkdir (Path (arg_output a)) True True (Inr ()),
        EvOpen (PathJoin (Path (arg_output a)) ''entity_extraction.txt'') ''wb'' (Inr f1),
        EvWrite f1 b0 (Inr ()), EvClose f1 (Inr ()),
        EvOpen (PathJoin (Path (arg_output a)) ''summarize_descriptions.txt'') ''wb''
          (Inr f2),
        EvWrite f2 b1 (Inr ()), EvClose f2 (Inr ()),
        EvOpen (PathJoin (Path (arg_output a)) ''community_report.txt'') ''wb'' (Inr f3),
        EvWrite f3 b2 (Inr ()), EvClose f3 (Inr ())] \<and>
     3 \<le> length ps \<and>
     encode_utf8_strict (ps ! 0) = Inr b0 \<and> encode_utf8_strict (ps ! 1) = Inr b1 \<and>
     encode_utf8_strict (ps ! 2) = Inr b2"
proof -
  from prompt_tune_success_trace[OF assms]
  obtain rep gc kw ps f1 f2 f3 b0 b1 b2 where
    evs: "events_since w w' =
       [EvPrintProgressReporter [] (Inr rep),
        EvReadConfigParameters (arg_root a) rep (arg_config a) (Inr gc),
        EvGenerateIndexingPrompts kw (Inr ps),
        EvInfo rep [Lit ''Writing prompts to '', FmtPath (Path (arg_output a))] (Inr ()),
        EvMkdir (Path (arg_output a)) True True (Inr ()),
        EvOpen (PathJoin (Path (arg_output a)) ENTITY_EXTRACTION_FILENAME) ''wb'' (Inr f1),
        EvWrite f1 b0 (Inr ()), EvClose f1 (Inr ()),
        EvOpen (PathJoin (Path (arg_output a)) ENTITY_SUMMARIZATION_FILENAME) ''wb'' (Inr f2),
        EvWrite f2 b1 (Inr ()), EvClose f2 (Inr ()),
        EvOpen (PathJoin (Path (arg_output a)) COMMUNITY_SUMMARIZATION_FILENAME) ''wb''
          (Inr f3),
        EvWrite f3 b2 (Inr ()), EvClose f3 (Inr ())]"
    and rest: "3 \<le> length ps" "encode_utf8_strict (ps ! 0) = Inr b0"
      "encode_utf8_strict (ps ! 1) = Inr b1" "encode_utf8_strict (ps ! 2) = Inr b2"
    by blast
  show ?thesis
    using rest
    by (simp add: evs ENTITY_EXTRACTION_FILENAME_def ENTITY_SUMMARIZATION_FILENAME_def
        COMMUNITY_SUMMARIZATION_FILENAME_def)
qed

text \<open>
  A run that returns normally: the three prompts are \<open>hi\<close>, \<open>U+00E9\<close> and \<open>U+20AC\<close>, and
  the three files hold their encodings of two, two and three bytes.
\<close>

theorem prompt_tune_writes_three_files_witness:
  "(let run = prompt_tune (sim_env [[104, 105], [233], [8364]]) sim_args (sim_world [])
    in fst run = Inr () \<and>
       sim_files (ext (snd run)) =
         [(PathJoin (Path ''prompts'') ''entity_extraction.txt'', [104, 105]),
          (PathJoin (Path ''prompts'') ''summarize_descriptions.txt'', [195, 169]),
          (PathJoin (Path ''prompts'') ''community_report.txt'', [226, 130, 172])] \<and>
       (\<exists>kw ps f1 f2 f3 b0 b1 b2.
          filter is_generate (events_since (sim_world []) (snd run)) =
            [EvGenerateIndexingPrompts kw (Inr ps)] \<and>
          filter file_event (events_since (sim_world []) (snd run)) =
            [EvMkdir (Path ''prompts'') True True (Inr ()),
             EvOpen (PathJoin (Path ''prompts'') ''entity_extraction.txt'') ''wb'' (Inr f1),
             EvWrite f1 b0 (Inr ()), EvClose f1 (Inr ()),
             EvOpen (PathJoin (Path ''prompts'') ''summarize_descriptions.txt'') ''wb''
               (Inr f2),
             EvWrite f2 b1 (Inr ()), EvClose f2 (Inr ()),
             EvOpen (PathJoin (Path ''prompts'') ''community_report.txt'') ''wb'' (Inr f3),
             EvWrite f3 b2 (Inr ()), EvClose f3 (Inr ())] \<and>
          3 \<le> length ps \<and>
          encode_utf8_strict (ps ! 0) = Inr b0 \<and> encode_utf8_strict (ps ! 1) = Inr b1 \<and>
          encode_utf8_strict (ps ! 2) = Inr b2))"
proof -
  let ?run = "prompt_tune (sim_env [[104, 105], [233], [8364]]) sim_args (sim_world [])"
  have ok: "fst ?run = Inr ()" by (simp add: sim_defs)
  have fs: "sim_files (ext (snd ?run)) =
         [(PathJoin (Path ''prompts'') ''entity_extraction.txt'', [104, 105]),
          (PathJoin (Path ''prompts'') ''summarize_descriptions.txt'', [195, 169]),
          (PathJoin (Path ''prompts'') ''community_report.txt'', [226, 130, 172])]"
    by (simp add: sim_defs)
  have run: "?run = (Inr (), snd ?run)" using ok by (metis prod.collapse)
  have out: "arg_output sim_args = ''prompts''" by (simp add: sim_args_def)
  from prompt_tune_writes_three_files[OF run] ok fs show ?thesis
    unfolding Let_def out by blast
qed

section \<open>\<open>__get_embedding_description_store\<close>\<close>

lemmas sim_api_defs =
  global_search_def local_search_def get_embedding_description_store_def or_new_dict_def
  alloc_def load_def store_def sim_env_def sim_world_def sim_config_def bindE_def call_def
  return_def Let_def events_since_def dict_get_def dict_update_def dict_truthy_def
  config_dict_def failure_def with_collection_name_def

text \<open>
  What every run of the function does, whatever its outcome: the heap only grows, the only
  dictionary of the caller that can change is a non-empty one passed as \<open>config_args\<close>,
  which gets its \<open>collection_name\<close>; an exception raised by a call is the outcome; and no
  call is one of \<open>search\<close>, \<open>read_indexer_covariates\<close> or \<open>get_local_search_engine\<close>.
\<close>

lemma geds_spec:
  "spec h (get_embedding_description_store env entities vector_store_type config_args)
     (\<lambda>r h1 evs.
        length h \<le> length h1 \<and>
        (\<forall>a < length h.
           h1 ! a =
             (if config_args = Some a \<and> h ! a \<noteq> [] then with_collection_name (h ! a)
              else h ! a)) \<and>
        (\<forall>ev \<in> set evs. \<forall>e. api_raised ev = Some e \<longrightarrow> r = Inl e) \<and>
        filter (\<lambda>ev. callee ev = ''search'') evs = [] \<and>
        filter (\<lambda>ev. callee ev = ''read_indexer_covariates'') evs = [] \<and>
        (\<forall>args r'. EvGetLocalSearchEngine args r' \<notin> set evs))"
  unfolding get_embedding_description_store_def Let_def
  apply (intro spec_rules)
  apply (simp_all add: failure_def nth_append with_collection_name_def nth_list_update)
  done

lemma spec_bind_geds:
  assumes err: "\<And>e h1 evs1.
      length h \<le> length h1 \<Longrightarrow>
      (\<forall>a < length h.
         h1 ! a =
           (if config_args = Some a \<and> h ! a \<noteq> [] then with_collection_name (h ! a)
            else h ! a)) \<Longrightarrow>
      (\<forall>ev \<in> set evs1. \<forall>e'. api_raised ev = Some e' \<longrightarrow> e' = e) \<Longrightarrow>
      filter (\<lambda>ev. callee ev = ''search'') evs1 = [] \<Longrightarrow>
      filter (\<lambda>ev. callee ev = ''read_indexer_covariates'') evs1 = [] \<Longrightarrow>
      (\<forall>args r'. EvGetLocalSearchEngine args r' \<notin> set evs1) \<Longrightarrow>
      Q (Inl e) h1 evs1"
    and ok: "\<And>st h1 evs1.
      length h \<le> length h1 \<Longrightarrow>
      (\<forall>a < length h.
         h1 ! a =
           (if config_args = Some a \<and> h ! a \<noteq> [] then with_collection_name (h ! a)
            else h ! a)) \<Longrightarrow>
      (\<forall>ev \<in> set evs1. api_raised ev = None) \<Longrightarrow>
      filter (\<lambda>ev. callee ev = ''search'') evs1 = [] \<Longrightarrow>
      filter (\<lambda>ev. callee ev = ''read_indexer_covariates'') evs1 = [] \<Longrightarrow>
      (\<forall>args r'. EvGetLocalSearchEngine args r' \<notin> set evs1) \<Longrightarrow>
      spec h1 (k st) (\<lambda>r h' evs. Q r h' (evs1 @ evs))"
  shows "spec h (bindE (get_embedding_description_store env entities vector_store_type
                        config_args) k) Q"
  apply (rule spec_bind[OF geds_spec])
  subgoal for e h1 evs1 by (rule err) auto
  subgoal for st h1 evs1 by (rule ok) (auto simp flip: not_Some_eq)
  done

lemmas local_rules =
  spec_bind_geds spec_bind_case_option spec_bind_call spec_bind_return spec_bind_load
  spec_bind_or_new_dict spec_return spec_call

lemma geds_lancedb_spec:
  "spec h (get_embedding_description_store env entities vector_store_type config_args)
     (\<lambda>r h1 evs. \<forall>st. r = Inr st \<longrightarrow>
        \<not> truthy (dict_get (config_dict h config_args) ''overwrite'' (PBool False)) \<longrightarrow>
        (\<exists>st0 conn name table.
           evs =
             [EvGetVectorStore vector_store_type
                (with_collection_name (config_dict h config_args)) (Inr st0),
              EvConnect st0 (with_collection_name (config_dict h config_args)) (Inr ()),
              EvLanceDBVectorStore
                (dict_get (config_dict h config_args) ''query_collection_name''
                   (PStr ''entity_description_embeddings'')) (Inr st),
              EvConnect st
                [(''db_uri'', dict_get (config_dict h config_args) ''db_uri''
                    (PStr ''./lancedb''))] (Inr ()),
              EvGetDbConnection st (Inr conn),
              EvGetCollectionName st (Inr name),
              EvOpenTable conn name (Inr table),
              EvSetDocumentCollection st table (Inr ())]))"
  unfolding get_embedding_description_store_def Let_def
  apply (intro spec_rules)
  apply (simp_all add: config_dict_def with_collection_name_def dict_get_update_other)
  done

lemma spec_conj:
  assumes "spec h m P" and "spec h m P'"
  shows "spec h m (\<lambda>r h' evs. P r h' evs \<and> P' r h' evs)"
proof (rule specI)
  fix w r w'
  assume hw: "heap w = h" and run: "m w = (r, w')"
  from spec_runD[OF assms(1) hw run] obtain evs where 1: "trace w' = trace w @ evs" "P r (heap w') evs"
    by blast
  from spec_runD[OF assms(2) hw run] obtain evs' where 2: "trace w' = trace w @ evs'" "P' r (heap w') evs'"
    by blast
  from 1(1) 2(1) have "evs' = evs" by simp
  with 1 2 show "\<exists>evs. trace w' = trace w @ evs \<and> P r (heap w') evs \<and> P' r (heap w') evs"
    by blast
qed

lemma spec_bind_geds_lancedb:
  assumes err: "\<And>e h1 evs1. Q (Inl e) h1 evs1"
    and ok: "\<And>st h1 evs1.
      (\<not> truthy (dict_get (config_dict h config_args) ''overwrite'' (PBool False)) \<longrightarrow>
         EvLanceDBVectorStore
           (dict_get (config_dict h config_args) ''query_collection_name''
              (PStr ''entity_description_embeddings'')) (Inr st) \<in> set evs1) \<Longrightarrow>
      (\<forall>args r'. EvGetLocalSearchEngine args r' \<notin> set evs1) \<Longrightarrow>
      spec h1 (k st) (\<lambda>r h' evs. Q r h' (evs1 @ evs))"
  shows "spec h (bindE (get_embedding_description_store env entities vector_store_type
                        config_args) k) Q"
  apply (rule spec_bind[OF spec_conj[OF geds_spec geds_lancedb_spec]])
  subgoal for e h1 evs1 by (rule err)
  subgoal for st h1 evs1 by (rule ok) auto
  done

lemma local_search_lancedb_spec:
  "spec h (local_search env config final_nodes final_entities final_community_reports
           final_text_units final_relationships final_covariates
           community_level response_type query)
     (\<lambda>r h' evs. \<forall>v. r = Inr v \<longrightarrow>
        \<not> truthy (dict_get (config_dict h (vector_store (embeddings config))) ''overwrite''
                    (PBool False)) \<longrightarrow>
        (\<exists>args eng st.
           EvGetLocalSearchEngine args (Inr eng) \<in> set evs \<and>
           le_description_embedding_store args = st \<and>
           EvLanceDBVectorStore
             (dict_get (config_dict h (vector_store (embeddings config)))
                ''query_collection_name'' (PStr ''entity_description_embeddings''))
             (Inr st) \<in> set evs))"
  unfolding local_search_def Let_def
  apply (intro spec_bind_geds_lancedb spec_bind_case_option spec_bind_call spec_bind_return
      spec_bind_load spec_bind_or_new_dict spec_return spec_call)
  apply (simp_all add: config_dict_def)
  done

text \<open>
  Claim C9.  When the dictionary that the function works on does not hold a true value
  under \<open>overwrite\<close> (and so also when \<open>config_args\<close> is \<open>None\<close> or empty), every call
  that returns normally has made exactly these calls: the store of the requested type is
  built by the factory and connected, with the dictionary extended by its
  \<open>collection_name\<close>; then a \<open>LanceDBVectorStore\<close> is built on the configured collection
  name and connected with \<open>db_uri\<close> (\<open>./lancedb\<close> unless the dictionary has one), the table
  named by its \<open>collection_name\<close> attribute is opened on its connection and becomes its
  \<open>document_collection\<close>.  The store returned is this second one, whatever the requested
  type; the first is not used again.  So a call of \<open>local_search\<close> that returns normally,
  with a configuration whose vector store arguments do not set \<open>overwrite\<close>, has given
  its engine a store built by \<open>LanceDBVectorStore\<close> on the configured collection name.
\<close>

theorem embedding_store_is_lancedb:
  "(get_embedding_description_store env entities vector_store_type config_args w =
      (Inr st, w') \<longrightarrow>
    \<not> truthy (dict_get (config_dict (heap w) config_args) ''overwrite'' (PBool False)) \<longrightarrow>
    (\<exists>st0 conn name table.
       events_since w w' =
         [EvGetVectorStore vector_store_type
            (with_collection_name (config_dict (heap w) config_args)) (Inr st0),
          EvConnect st0 (with_collection_name (config_dict (heap w) config_args))
            (Inr ()),
          EvLanceDBVectorStore
            (dict_get (config_dict (heap w) config_args) ''query_collection_name''
               (PStr ''entity_description_embeddings'')) (Inr st),
          EvConnect st
            [(''db_uri'', dict_get (config_dict (heap w) config_args) ''db_uri''
                (PStr ''./lancedb''))] (Inr ()),
          EvGetDbConnection st (Inr conn),
          EvGetCollectionName st (Inr name),
          EvOpenTable conn name (Inr table),
          EvSetDocumentCollection st table (Inr ())])) \<and>
   (local_search env config final_nodes final_entities final_community_reports
      final_text_units final_relationships final_covariates
      community_level response_type query w = (Inr v, w') \<longrightarrow>
    \<not> truthy (dict_get (config_dict (heap w) (vector_store (embeddings config))) ''overwrite''
                (PBool False)) \<longrightarrow>
    (\<exists>args eng stl.
       EvGetLocalSearchEngine args (Inr eng) \<in> set (events_since w w') \<and>
       le_description_embedding_store args = stl \<and>
       EvLanceDBVectorStore
         (dict_get (config_dict (heap w) (vector_store (embeddings config)))
            ''query_collection_name'' (PStr ''entity_description_embeddings''))
         (Inr stl) \<in> set (events_since w w')))"
proof (intro conjI impI)
  assume run: "get_embedding_description_store env entities vector_store_type config_args w =
      (Inr st, w')"
    and ov: "\<not> truthy (dict_get (config_dict (heap w) config_args) ''overwrite'' (PBool False))"
  from specD[OF geds_lancedb_spec run] ov
  show "\<exists>st0 conn name table.
       events_since w w' =
         [EvGetVectorStore vector_store_type
            (with_collection_name (config_dict (heap w) config_args)) (Inr st0),
          EvConnect st0 (with_collection_name (config_dict (heap w) config_args))
            (Inr ()),
          EvLanceDBVectorStore
            (dict_get (config_dict (heap w) config_args) ''query_collection_name''
               (PStr ''entity_description_embeddings'')) (Inr st),
          EvConnect st
            [(''db_uri'', dict_get (config_dict (heap w) config_args) ''db_uri''
                (PStr ''./lancedb''))] (Inr ()),
          EvGetDbConnection st (Inr conn),
          EvGetCollectionName st (Inr name),
          EvOpenTable conn name (Inr table),
          EvSetDocumentCollection st table (Inr ())]"
    by blast
next
  assume run: "local_search env config final_nodes final_entities final_community_reports
      final_text_units final_relationships final_covariates
      community_level response_type query w = (Inr v, w')"
    and ov: "\<not> truthy (dict_get (config_dict (heap w) (vector_store (embeddings config)))
                ''overwrite'' (PBool False))"
  from specD[OF local_search_lancedb_spec run] ov
  show "\<exists>args eng stl.
       EvGetLocalSearchEngine args (Inr eng) \<in> set (events_since w w') \<and>
       le_description_embedding_store args = stl \<and>
       EvLanceDBVectorStore
         (dict_get (config_dict (heap w) (vector_store (embeddings config)))
            ''query_collection_name'' (PStr ''entity_description_embeddings''))
         (Inr stl) \<in> set (events_since w w')"
    by blast
qed

text \<open>
  A call that asks for an Azure AI Search store, with a collection name and a database
  of its own: the store returned is the LanceDB one.  And a local search configured for
  Azure AI Search: its engine gets a LanceDB store.
\<close>

theorem embedding_store_is_lancedb_witness:
  "(let w = sim_world [[(''type'', PStr ''azure_ai_search''),
                        (''query_collection_name'', PStr ''my_entities''),
                        (''db_uri'', PStr ''/data/lancedb'')]];
        run = get_embedding_description_store (sim_env []) (Obj ''entities'')
                (PStr ''azure_ai_search'') (Some 0) w;
        l = local_search (sim_env []) (sim_config (Some 0)) (Obj ''final_nodes'')
              (Obj ''final_entities'') (Obj ''final_community_reports'')
              (Obj ''final_text_units'') (Obj ''final_relationships'') None 2
              ''multiple paragraphs'' ''what is new?'' w
    in fst run = Inr (LanceDB (PStr ''my_entities'')) \<and>
       (\<exists>st0 conn table.
          events_since w (snd run) =
            [EvGetVectorStore (PStr ''azure_ai_search'')
               [(''type'', PStr ''azure_ai_search''),
                (''query_collection_name'', PStr ''my_entities''),
                (''db_uri'', PStr ''/data/lancedb''),
                (''collection_name'', PStr ''my_entities'')] (Inr st0),
             EvConnect st0
               [(''type'', PStr ''azure_ai_search''),
                (''query_collection_name'', PStr ''my_entities''),
                (''db_uri'', PStr ''/data/lancedb''),
                (''collection_name'', PStr ''my_entities'')] (Inr ()),
             EvLanceDBVectorStore (PStr ''my_entities'')
               (Inr (LanceDB (PStr ''my_entities''))),
             EvConnect (LanceDB (PStr ''my_entities'')) [(''db_uri'', PStr ''/data/lancedb'')]
               (Inr ()),
             EvGetDbConnection (LanceDB (PStr ''my_entities'')) (Inr conn),
             EvGetCollectionName (LanceDB (PStr ''my_entities'')) (Inr (PStr ''my_entities'')),
             EvOpenTable conn (PStr ''my_entities'') (Inr table),
             EvSetDocumentCollection (LanceDB (PStr ''my_entities'')) table (Inr ())]) \<and>
       fst l = Inr (RStr ''answer'') \<and>
       (\<exists>args eng.
          EvGetLocalSearchEngine args (Inr eng) \<in> set (events_since w (snd l)) \<and>
          le_description_embedding_store args = LanceDB (PStr ''my_entities'')))"
proof -
  let ?w = "sim_world [[(''type'', PStr ''azure_ai_search''),
                        (''query_collection_name'', PStr ''my_entities''),
                        (''db_uri'', PStr ''/data/lancedb'')]] :: (sim_fs, sim_obj api_event) world"
  let ?run = "get_embedding_description_store (sim_env []) (Obj ''entities'')
                (PStr ''azure_ai_search'') (Some 0) ?w"
  let ?l = "local_search (sim_env []) (sim_config (Some 0)) (Obj ''final_nodes'')
              (Obj ''final_entities'') (Obj ''final_community_reports'')
              (Obj ''final_text_units'') (Obj ''final_relationships'') None 2
              ''multiple paragraphs'' ''what is new?'' ?w"
  have ok: "fst ?run = Inr (LanceDB (PStr ''my_entities''))" by (simp add: sim_api_defs)
  have run: "?run = (Inr (LanceDB (PStr ''my_entities'')), snd ?run)"
    using ok by (metis prod.collapse)
  have name: "EvGetCollectionName (LanceDB (PStr ''my_entities'')) (Inr (PStr ''my_entities''))
      \<in> set (events_since ?w (snd ?run))"
    by (simp add: sim_api_defs)
  have ov: "\<not> truthy (dict_get (config_dict (heap ?w) (Some 0)) ''overwrite'' (PBool False))"
    by (simp add: sim_world_def config_dict_def dict_get_def)
  have d: "config_dict (heap ?w) (Some 0) =
             [(''type'', PStr ''azure_ai_search''),
              (''query_collection_name'', PStr ''my_entities''),
              (''db_uri'', PStr ''/data/lancedb'')]"
    by (simp add: sim_world_def config_dict_def)
  have c: "vector_store (embeddings (sim_config (Some 0) :: sim_obj GraphRagConfig)) = Some 0"
    by (simp add: sim_config_def)
  have okl: "fst ?l = Inr (RStr ''answer'')" by (simp add: sim_api_defs)
  have runl: "?l = (Inr (RStr ''answer''), snd ?l)" using okl by (metis prod.collapse)
  have only: "\<forall>n stl. EvLanceDBVectorStore n (Inr stl) \<in> set (events_since ?w (snd ?l)) \<longrightarrow>
                stl = LanceDB (PStr ''my_entities'')"
    by (simp add: sim_api_defs)
  from embedding_store_is_lancedb[THEN conjunct1, rule_format, OF run ov] ok name
  have 1: "\<exists>st0 conn table.
          events_since ?w (snd ?run) =
            [EvGetVectorStore (PStr ''azure_ai_search'')
               [(''type'', PStr ''azure_ai_search''),
                (''query_collection_name'', PStr ''my_entities''),
                (''db_uri'', PStr ''/data/lancedb''),
                (''collection_name'', PStr ''my_entities'')] (Inr st0),
             EvConnect st0
               [(''type'', PStr ''azure_ai_search''),
                (''query_collection_name'', PStr ''my_entities''),
                (''db_uri'', PStr ''/data/lancedb''),
                (''collection_name'', PStr ''my_entities'')] (Inr ()),
             EvLanceDBVectorStore (PStr ''my_entities'')
               (Inr (LanceDB (PStr ''my_entities''))),
             EvConnect (LanceDB (PStr ''my_entities'')) [(''db_uri'', PStr ''/data/lancedb'')]
               (Inr ()),
             EvGetDbConnection (LanceDB (PStr ''my_entities'')) (Inr conn),
             EvGetCollectionName (LanceDB (PStr ''my_entities'')) (Inr (PStr ''my_entities'')),
             EvOpenTable conn (PStr ''my_entities'') (Inr table),
             EvSetDocumentCollection (LanceDB (PStr ''my_entities'')) table (Inr ())]"
    unfolding d
    by (auto simp add: with_collection_name_def dict_get_def dict_update_def)
  from ov c have ovl: "\<not> truthy (dict_get (config_dict (heap ?w)
        (vector_store (embeddings (sim_config (Some 0) :: sim_obj GraphRagConfig))))
        ''overwrite'' (PBool False))"
    by simp
  from embedding_store_is_lancedb[THEN conjunct2, rule_format, OF runl ovl] only
  have 2: "\<exists>args eng.
          EvGetLocalSearchEngine args (Inr eng) \<in> set (events_since ?w (snd ?l)) \<and>
          le_description_embedding_store args = LanceDB (PStr ''my_entities'')"
    by blast
  from ok okl 1 2 show ?thesis unfolding Let_def by blast
qed

section \<open>\<open>global_search\<close>\<close>

lemma global_search_success_spec:
  "spec h (global_search env config final_nodes final_entities final_community_reports
           community_level response_type query)
     (\<lambda>r h' evs. \<forall>v. r = Inr v \<longrightarrow>
        (\<exists>reports entities search_engine result.
           evs =
             [EvReadIndexerReports final_community_reports final_nodes community_level
                (Inr reports),
              EvReadIndexerEntities final_nodes final_entities community_level (Inr entities),
              EvGetGlobalSearchEngine
                \<lparr>ge_config = config, ge_reports = reports, ge_entities = entities,
                   ge_response_type = response_type\<rparr> (Inr search_engine),
              EvSearch search_engine query (Inr result),
              EvReporterSuccess (reporter env)
                [Lit ''Global Search Response: '', FmtResponse (response result)] (Inr ())]
           \<and> v = response result))"
  unfolding global_search_def Let_def
  apply (intro spec_rules)
  apply simp_all
  done

lemma global_search_runs_spec:
  "spec h (global_search env config final_nodes final_entities final_community_reports
           community_level response_type query)
     (\<lambda>r h' evs.
        prefix (map callee evs)
          [''read_indexer_reports'', ''read_indexer_entities'', ''get_global_search_engine'',
           ''search'', ''reporter.success''] \<and>
        (\<forall>ev \<in> set evs. \<forall>e. api_raised ev = Some e \<longrightarrow> r = Inl e) \<and>
        h' = h)"
  unfolding global_search_def Let_def
  apply (intro spec_rules)
  apply (simp_all add: failure_def)
  done

text \<open>
  Claim C7.  Every run of \<open>global_search\<close> makes its calls in one fixed order, each at
  most once: \<open>read_indexer_reports\<close>, \<open>read_indexer_entities\<close>,
  \<open>get_global_search_engine\<close>, \<open>search\<close>, and the report of the response.  In a run that
  returns normally all five are made: the reports come from the community reports and
  the nodes at the given level, the entities from the nodes and the entities at the same
  level, the one engine is built from the configuration, these reports, these entities
  and the response type, the one search is made on that engine with the query, and the
  value returned is the response of that search.
\<close>

theorem global_search_single_pass:
  assumes "global_search env config final_nodes final_entities final_community_reports
             community_level response_type query w = (r, w')"
  shows "prefix (map callee (events_since w w'))
           [''read_indexer_reports'', ''read_indexer_entities'', ''get_global_search_engine'',
            ''search'', ''reporter.success''] \<and>
         (\<forall>v. r = Inr v \<longrightarrow>
           (\<exists>reports entities search_engine result.
              events_since w w' =
                [EvReadIndexerReports final_community_reports final_nodes community_level
                   (Inr reports),
                 EvReadIndexerEntities final_nodes final_entities community_level
                   (Inr entities),
                 EvGetGlobalSearchEngine
                   \<lparr>ge_config = config, ge_reports = reports, ge_entities = entities,
                      ge_response_type = response_type\<rparr> (Inr search_engine),
                 EvSearch search_engine query (Inr result),
                 EvReporterSuccess (reporter env)
                   [Lit ''Global Search Response: '', FmtResponse (response result)]
                   (Inr ())]
              \<and> v = response result))"
  using specD[OF global_search_runs_spec assms] specD[OF global_search_success_spec assms]
  by blast

text \<open>A run of \<open>global_search\<close> in the simulated environment: five calls, one answer.\<close>

theorem global_search_single_pass_witness:
  "(let run = global_search (sim_env []) (sim_config None) (Obj ''final_nodes'')
                (Obj ''final_entities'') (Obj ''final_community_reports'') 2
                ''multiple paragraphs'' ''what is new?'' (sim_world [])
    in fst run = Inr (RStr ''answer'') \<and>
       map callee (events_since (sim_world []) (snd run)) =
         [''read_indexer_reports'', ''read_indexer_entities'', ''get_global_search_engine'',
          ''search'', ''reporter.success''] \<and>
       (\<exists>reports entities search_engine result.
          events_since (sim_world []) (snd run) =
            [EvReadIndexerReports (Obj ''final_community_reports'') (Obj ''final_nodes'') 2
               (Inr reports),
             EvReadIndexerEntities (Obj ''final_nodes'') (Obj ''final_entities'') 2
               (Inr entities),
             EvGetGlobalSearchEngine
               \<lparr>ge_config = sim_config None, ge_reports = reports, ge_entities = entities,
                  ge_response_type = ''multiple paragraphs''\<rparr> (Inr search_engine),
             EvSearch search_engine ''what is new?'' (Inr result),
             EvReporterSuccess (reporter (sim_env []))
               [Lit ''Global Search Response: '', FmtResponse (response result)] (Inr ())]
          \<and> RStr ''answer'' = response result))"
proof -
  let ?run = "global_search (sim_env []) (sim_config None) (Obj ''final_nodes'')
                (Obj ''final_entities'') (Obj ''final_community_reports'') 2
                ''multiple paragraphs'' ''what is new?'' (sim_world [])"
  have ok: "fst ?run = Inr (RStr ''answer'')" by (simp add: sim_api_defs)
  have names: "map callee (events_since (sim_world []) (snd ?run)) =
         [''read_indexer_reports'', ''read_indexer_entities'', ''get_global_search_engine'',
          ''search'', ''reporter.success'']"
    by (simp add: sim_api_defs)
  have run: "?run = (Inr (RStr ''answer''), snd ?run)" using ok by (metis prod.collapse)
  from global_search_single_pass[OF run] ok names show ?thesis
    unfolding Let_def by blast
qed

section \<open>\<open>local_search\<close>\<close>

lemma local_search_raised_spec:
  "spec h (local_search env config final_nodes final_entities final_community_reports
           final_text_units final_relationships final_covariates
           community_level response_type query)
     (\<lambda>r h' evs. \<forall>ev \<in> set evs. \<forall>e. api_raised ev = Some e \<longrightarrow> r = Inl e)"
  unfolding local_search_def Let_def
  apply (intro local_rules)
  apply (simp_all add: failure_def)
  done


lemma local_search_covariates_spec:
  "spec h (local_search env config final_nodes final_entities final_community_reports
           final_text_units final_relationships final_covariates
           community_level response_type query)
     (\<lambda>r h' evs.
        (final_covariates = None \<longrightarrow>
           filter (\<lambda>ev. callee ev = ''read_indexer_covariates'') evs = [] \<and>
           (\<forall>args r'. EvGetLocalSearchEngine args r' \<in> set evs \<longrightarrow>
              le_covariates args = [(''claims'', [])])) \<and>
        (\<forall>df. final_covariates = Some df \<longrightarrow>
           (\<forall>args r'. EvGetLocalSearchEngine args r' \<in> set evs \<longrightarrow>
              (\<exists>cs. filter (\<lambda>ev. callee ev = ''read_indexer_covariates'') evs =
                      [EvReadIndexerCovariates df (Inr cs)] \<and>
                    le_covariates args = [(''claims'', cs)]))) \<and>
        (\<forall>v. r = Inr v \<longrightarrow> (\<exists>args eng. EvGetLocalSearchEngine args (Inr eng) \<in> set evs)))"
  unfolding local_search_def Let_def
  apply (intro local_rules)
  apply simp_all
  done


text \<open>
  Claim C6.  The covariates are optional.  With \<open>final_covariates = None\<close> no run calls
  \<open>read_indexer_covariates\<close>, and whenever the local search engine is built its
  \<open>covariates\<close> argument is \<open>{"claims": []}\<close>.  With a table of covariates, whenever the
  engine is built, \<open>read_indexer_covariates\<close> has been called exactly once, on that
  table, and the argument is \<open>{"claims": cs}\<close> for the list \<open>cs\<close> it returned.  A run that
  returns normally has built the engine.
\<close>

theorem local_search_covariates_optional:
  assumes "local_search env config final_nodes final_entities final_community_reports
             final_text_units final_relationships final_covariates
             community_level response_type query w = (r, w')"
  shows "(final_covariates = None \<longrightarrow>
           filter (\<lambda>ev. callee ev = ''read_indexer_covariates'') (events_since w w') = [] \<and>
           (\<forall>args r'. EvGetLocalSearchEngine args r' \<in> set (events_since w w') \<longrightarrow>
              le_covariates args = [(''claims'', [])])) \<and>
        (\<forall>df. final_covariates = Some df \<longrightarrow>
           (\<forall>args r'. EvGetLocalSearchEngine args r' \<in> set (events_since w w') \<longrightarrow>
              (\<exists>cs. filter (\<lambda>ev. callee ev = ''read_indexer_covariates'')
                      (events_since w w') =
                      [EvReadIndexerCovariates df (Inr cs)] \<and>
                    le_covariates args = [(''claims'', cs)]))) \<and>
        (\<forall>v. r = Inr v \<longrightarrow>
           (\<exists>args eng. EvGetLocalSearchEngine args (Inr eng) \<in> set (events_since w w')))"
  using specD[OF local_search_covariates_spec assms] .

text \<open>Two runs in the simulated environment, without and with a table of covariates.\<close>

theorem local_search_covariates_optional_witness:
  "(let w = sim_world [];
        run0 = local_search (sim_env []) (sim_config None) (Obj ''final_nodes'')
                 (Obj ''final_entities'') (Obj ''final_community_reports'')
                 (Obj ''final_text_units'') (Obj ''final_relationships'') None 2
                 ''multiple paragraphs'' ''what is new?'' w;
        run1 = local_search (sim_env []) (sim_config None) (Obj ''final_nodes'')
                 (Obj ''final_entities'') (Obj ''final_community_reports'')
                 (Obj ''final_text_units'') (Obj ''final_relationships'')
                 (Some (Obj ''final_covariates'')) 2
                 ''multiple paragraphs'' ''what is new?'' w
    in filter (\<lambda>ev. callee ev = ''read_indexer_covariates'') (events_since w (snd run0)) = [] \<and>
       (\<exists>args eng. EvGetLocalSearchEngine args (Inr eng) \<in> set (events_since w (snd run0)) \<and>
          le_covariates args = [(''claims'', [])]) \<and>
       filter (\<lambda>ev. callee ev = ''read_indexer_covariates'') (events_since w (snd run1)) =
         [EvReadIndexerCovariates (Obj ''final_covariates'') (Inr [Obj ''claim''])] \<and>
       (\<exists>args eng. EvGetLocalSearchEngine args (Inr eng) \<in> set (events_since w (snd run1)) \<and>
          le_covariates args = [(''claims'', [Obj ''claim''])]))"
proof -
  let ?w = "sim_world [] :: (sim_fs, sim_obj api_event) world"
  let ?run0 = "local_search (sim_env []) (sim_config None) (Obj ''final_nodes'')
                 (Obj ''final_entities'') (Obj ''final_community_reports'')
                 (Obj ''final_text_units'') (Obj ''final_relationships'') None 2
                 ''multiple paragraphs'' ''what is new?'' ?w"
  let ?run1 = "local_search (sim_env []) (sim_config None) (Obj ''final_nodes'')
                 (Obj ''final_entities'') (Obj ''final_community_reports'')
                 (Obj ''final_text_units'') (Obj ''final_relationships'')
                 (Some (Obj ''final_covariates'')) 2
                 ''multiple paragraphs'' ''what is new?'' ?w"
  have ok0: "fst ?run0 = Inr (RStr ''answer'')" by (simp add: sim_api_defs)
  have ok1: "fst ?run1 = Inr (RStr ''answer'')" by (simp add: sim_api_defs)
  have f1: "filter (\<lambda>ev. callee ev = ''read_indexer_covariates'') (events_since ?w (snd ?run1)) =
         [EvReadIndexerCovariates (Obj ''final_covariates'') (Inr [Obj ''claim''])]"
    by (simp add: sim_api_defs)
  have run0: "?run0 = (Inr (RStr ''answer''), snd ?run0)" using ok0 by (metis prod.collapse)
  have run1: "?run1 = (Inr (RStr ''answer''), snd ?run1)" using ok1 by (metis prod.collapse)
  note t0 = local_search_covariates_optional[OF run0]
  note t1 = local_search_covariates_optional[OF run1]
  from t0 have a: "filter (\<lambda>ev. callee ev = ''read_indexer_covariates'')
                     (events_since ?w (snd ?run0)) = []"
    and b: "\<exists>args eng. EvGetLocalSearchEngine args (Inr eng) \<in> set (events_since ?w (snd ?run0)) \<and>
          le_covariates args = [(''claims'', [])]"
    by blast+
  from t1 f1 have c: "\<exists>args eng. EvGetLocalSearchEngine args (Inr eng) \<in>
          set (events_since ?w (snd ?run1)) \<and>
          le_covariates args = [(''claims'', [Obj ''claim''])]"
    by fastforce
  from a b c f1 show ?thesis unfolding Let_def by blast
qed

section \<open>Both searches: the value returned\<close>



section \<open>Exceptions and the objects of the caller\<close>

lemma prompt_tune_runs_post:
  "post (prompt_tune env a) w (\<lambda>r w'.
     heap w' = heap w \<and>
     (\<forall>ev \<in> set (events_since w w').
        \<not> is_write ev \<longrightarrow> (\<forall>e. cli_raised ev = Some e \<longrightarrow> r = Inl e)))"
  unfolding prompt_tune_def Let_def bool_Path_def if_True
  apply (intro cli_rules)
  apply (simp_all add: events_since_def outcome_of_block_def failure_def split: sum.splits)
  done

text \<open>
  Claim C4.  In every run of \<open>prompt_tune\<close>, \<open>global_search\<close> and \<open>local_search\<close>, an
  exception raised by a call of a collaborator is the outcome of the function, as it is:
  nothing is caught, changed or replaced.  This holds for every call recorded (making the
  reporter, loading the configuration, generating the prompts, the indexer adapters, the
  vector stores, the engines, the search, the reporter, \<open>mkdir\<close>, opening and closing a
  file), the one exception being a \<open>write\<close> on a file: when the close that follows raises
  too, the exception of the close is the outcome.
\<close>

theorem collaborator_exceptions_propagate:
  "(prompt_tune env a wc = (rc, wc') \<longrightarrow>
      (\<forall>ev \<in> set (events_since wc wc').
         \<not> is_write ev \<longrightarrow> (\<forall>e. cli_raised ev = Some e \<longrightarrow> rc = Inl e))) \<and>
   (global_search env config final_nodes final_entities final_community_reports
      community_level response_type query w = (r, w') \<longrightarrow>
      (\<forall>ev \<in> set (events_since w w'). \<forall>e. api_raised ev = Some e \<longrightarrow> r = Inl e)) \<and>
   (local_search env config final_nodes final_entities final_community_reports
      final_text_units final_relationships final_covariates
      community_level response_type query w = (r, w') \<longrightarrow>
      (\<forall>ev \<in> set (events_since w w'). \<forall>e. api_raised ev = Some e \<longrightarrow> r = Inl e))"
proof (intro conjI impI)
  assume "prompt_tune env a wc = (rc, wc')"
  from postD[OF prompt_tune_runs_post this]
  show "\<forall>ev \<in> set (events_since wc wc').
         \<not> is_write ev \<longrightarrow> (\<forall>e. cli_raised ev = Some e \<longrightarrow> rc = Inl e)"
    by blast
next
  assume "global_search env config final_nodes final_entities final_community_reports
      community_level response_type query w = (r, w')"
  from specD[OF global_search_runs_spec this]
  show "\<forall>ev \<in> set (events_since w w'). \<forall>e. api_raised ev = Some e \<longrightarrow> r = Inl e"
    by blast
next
  assume "local_search env config final_nodes final_entities final_community_reports
      final_text_units final_relationships final_covariates
      community_level response_type query w = (r, w')"
  from specD[OF local_search_raised_spec this]
  show "\<forall>ev \<in> set (events_since w w'). \<forall>e. api_raised ev = Some e \<longrightarrow> r = Inl e"
    by blast
qed

text \<open>
  Three runs in which one collaborator raises: the prompt generator, the global search
  engine and the indexer adapter for relationships.
\<close>

theorem collaborator_exceptions_propagate_witness:
  "(let p = prompt_tune
              ((sim_env [])\<lparr>generate_indexing_prompts :=
                 \<lambda>kw fs. (Inl (Raised ''no model''), fs)\<rparr>) sim_args (sim_world []);
        g = global_search
              ((sim_env [])\<lparr>search := \<lambda>eng q fs. (Inl (Raised ''rate limit''), fs)\<rparr>)
              (sim_config None) (Obj ''final_nodes'') (Obj ''final_entities'')
              (Obj ''final_community_reports'') 2 ''multiple paragraphs'' ''what is new?''
              (sim_world []);
        l = local_search
              ((sim_env [])\<lparr>read_indexer_relationships :=
                 \<lambda>df fs. (Inl (Raised ''bad column''), fs)\<rparr>)
              (sim_config None) (Obj ''final_nodes'') (Obj ''final_entities'')
              (Obj ''final_community_reports'') (Obj ''final_text_units'')
              (Obj ''final_relationships'') None 2 ''multiple paragraphs'' ''what is new?''
              (sim_world [])
    in (\<exists>ev \<in> set (trace (snd p)). \<not> is_write ev \<and> cli_raised ev = Some (Raised ''no model'')) \<and>
       fst p = Inl (Raised ''no model'') \<and>
       (\<exists>ev \<in> set (trace (snd g)). api_raised ev = Some (Raised ''rate limit'')) \<and>
       fst g = Inl (Raised ''rate limit'') \<and>
       (\<exists>ev \<in> set (trace (snd l)). api_raised ev = Some (Raised ''bad column'')) \<and>
       fst l = Inl (Raised ''bad column''))"
proof -
  let ?wc = "sim_world [] :: (sim_fs, sim_obj cli_event) world"
  let ?w = "sim_world [] :: (sim_fs, sim_obj api_event) world"
  let ?p = "prompt_tune
              ((sim_env [])\<lparr>generate_indexing_prompts :=
                 \<lambda>kw fs. (Inl (Raised ''no model''), fs)\<rparr>) sim_args ?wc"
  let ?g = "global_search
              ((sim_env [])\<lparr>search := \<lambda>eng q fs. (Inl (Raised ''rate limit''), fs)\<rparr>)
              (sim_config None) (Obj ''final_nodes'') (Obj ''final_entities'')
              (Obj ''final_community_reports'') 2 ''multiple paragraphs'' ''what is new?'' ?w"
  let ?l = "local_search
              ((sim_env [])\<lparr>read_indexer_relationships :=
                 \<lambda>df fs. (Inl (Raised ''bad column''), fs)\<rparr>)
              (sim_config None) (Obj ''final_nodes'') (Obj ''final_entities'')
              (Obj ''final_community_reports'') (Obj ''final_text_units'')
              (Obj ''final_relationships'') None 2 ''multiple paragraphs'' ''what is new?'' ?w"
  have ep: "\<exists>ev \<in> set (events_since ?wc (snd ?p)).
              \<not> is_write ev \<and> cli_raised ev = Some (Raised ''no model'')"
    by (simp add: sim_defs failure_def)
  have eg: "\<exists>ev \<in> set (events_since ?w (snd ?g)). api_raised ev = Some (Raised ''rate limit'')"
    by (simp add: sim_api_defs)
  have el: "\<exists>ev \<in> set (events_since ?w (snd ?l)). api_raised ev = Some (Raised ''bad column'')"
    by (simp add: sim_api_defs)
  have t: "events_since ?wc (snd ?p) = trace (snd ?p)"
    "events_since ?w (snd ?g) = trace (snd ?g)" "events_since ?w (snd ?l) = trace (snd ?l)"
    by (simp_all add: events_since_def sim_world_def)
  have rp: "?p = (fst ?p, snd ?p)" and rg: "?g = (fst ?g, snd ?g)" and rl: "?l = (fst ?l, snd ?l)"
    by simp_all
  from collaborator_exceptions_propagate[THEN conjunct1, rule_format, OF rp] ep
  have 1: "fst ?p = Inl (Raised ''no model'')" by blast
  from collaborator_exceptions_propagate[THEN conjunct2, THEN conjunct1, rule_format, OF rg] eg
  have 2: "fst ?g = Inl (Raised ''rate limit'')" by blast
  from collaborator_exceptions_propagate[THEN conjunct2, THEN conjunct2, rule_format, OF rl] el
  have 3: "fst ?l = Inl (Raised ''bad column'')" by blast
  from 1 2 3 ep eg el show ?thesis unfolding Let_def t by blast
qed




section \<open>\<open>prompt_tune\<close>: the output branch\<close>

lemma prompt_tune_branch_post:
  "post (prompt_tune env a) w (\<lambda>r w'.
     ((\<exists>kw ps. EvGenerateIndexingPrompts kw (Inr ps) \<in> set (events_since w w')) \<longrightarrow>
        (\<exists>rep res. EvInfo rep [Lit ''Writing prompts to '', FmtPath (Path (arg_output a))] res
           \<in> set (events_since w w'))) \<and>
     ((\<exists>rep msg. EvInfo rep msg (Inr ()) \<in> set (events_since w w')) \<longrightarrow>
        (\<exists>res. EvMkdir (Path (arg_output a)) True True res \<in> set (events_since w w'))) \<and>
     ((\<exists>p. EvMkdir p True True (Inr ()) \<in> set (events_since w w')) \<longrightarrow>
        (\<exists>res. EvOpen (PathJoin (Path (arg_output a)) ENTITY_EXTRACTION_FILENAME) ''wb'' res
           \<in> set (events_since w w'))))"
  unfolding prompt_tune_def Let_def bool_Path_def if_True
  apply (intro cli_rules)
  apply (simp_all add: events_since_def outcome_of_block_def ex_disj_distrib split: sum.splits)
  done

text \<open>
  Claim C10.  The path made from any output string is true, so \<open>prompt_tune\<close> never skips
  the branch that writes: in every run, once the prompt generator has returned normally
  the reporter is told where the prompts go; once it has been told, \<open>mkdir\<close> is called on
  the output path with \<open>parents=True\<close> and \<open>exist_ok=True\<close>; and once \<open>mkdir\<close> has
  returned, the first file is opened.  A run that returns normally has made the
  directory and written three files in it.
\<close>

theorem output_branch_never_skipped:
  assumes "prompt_tune env a w = (r, w')"
  shows "bool_Path (Path (arg_output a)) \<and>
     ((\<exists>kw ps. EvGenerateIndexingPrompts kw (Inr ps) \<in> set (events_since w w')) \<longrightarrow>
        (\<exists>rep res. EvInfo rep [Lit ''Writing prompts to '', FmtPath (Path (arg_output a))] res
           \<in> set (events_since w w'))) \<and>
     ((\<exists>rep msg. EvInfo rep msg (Inr ()) \<in> set (events_since w w')) \<longrightarrow>
        (\<exists>res. EvMkdir (Path (arg_output a)) True True res \<in> set (events_since w w'))) \<and>
     ((\<exists>p. EvMkdir p True True (Inr ()) \<in> set (events_since w w')) \<longrightarrow>
        (\<exists>res. EvOpen (PathJoin (Path (arg_output a)) ''entity_extraction.txt'') ''wb'' res
           \<in> set (events_since w w'))) \<and>
     (r = Inr () \<longrightarrow>
        EvMkdir (Path (arg_output a)) True True (Inr ()) \<in> set (events_since w w') \<and>
        length (filter (\<lambda>ev. is_write ev \<and> cli_raised ev = None) (events_since w w')) = 3)"
proof -
  note b = postD[OF prompt_tune_branch_post assms]
  have s: "r = Inr () \<longrightarrow>
        EvMkdir (Path (arg_output a)) True True (Inr ()) \<in> set (events_since w w') \<and>
        length (filter (\<lambda>ev. is_write ev \<and> cli_raised ev = None) (events_since w w')) = 3"
  proof
    assume "r = Inr ()"
    with assms have "prompt_tune env a w = (Inr (), w')" by simp
    from prompt_tune_success_trace[OF this]
    obtain rep gc kw ps f1 f2 f3 b0 b1 b2 where
      "events_since w w' =
       [EvPrintProgressReporter [] (Inr rep),
        EvReadConfigParameters (arg_root a) rep (arg_config a) (Inr gc),
        EvGenerateIndexingPrompts kw (Inr ps),
        EvInfo rep [Lit ''Writing prompts to '', FmtPath (Path (arg_output a))] (Inr ()),
        EvMkdir (Path (arg_output a)) True True (Inr ()),
        EvOpen (PathJoin (Path (arg_output a)) ENTITY_EXTRACTION_FILENAME) ''wb'' (Inr f1),
        EvWrite f1 b0 (Inr ()), EvClose f1 (Inr ()),
        EvOpen (PathJoin (Path (arg_output a)) ENTITY_SUMMARIZATION_FILENAME) ''wb'' (Inr f2),
        EvWrite f2 b1 (Inr ()), EvClose f2 (Inr ()),
        EvOpen (PathJoin (Path (arg_output a)) COMMUNITY_SUMMARIZATION_FILENAME) ''wb''
          (Inr f3),
        EvWrite f3 b2 (Inr ()), EvClose f3 (Inr ())]"
      by blast
    then show "EvMkdir (Path (arg_output a)) True True (Inr ()) \<in> set (events_since w w') \<and>
        length (filter (\<lambda>ev. is_write ev \<and> cli_raised ev = None) (events_since w w')) = 3"
      by (simp add: failure_def)
  qed
  from b s show ?thesis
    by (simp add: bool_Path_def ENTITY_EXTRACTION_FILENAME_def)
qed

text \<open>
  A run with the empty string as output: the directory is made and the three files are
  written under it.
\<close>

theorem output_branch_never_skipped_witness:
  "(let run = prompt_tune (sim_env [[104, 105], [233], [8364]])
                (sim_args\<lparr>arg_output := []\<rparr>) (sim_world [])
    in fst run = Inr () \<and> bool_Path (Path []) \<and>
       EvMkdir (Path []) True True (Inr ()) \<in> set (events_since (sim_world []) (snd run)) \<and>
       length (filter (\<lambda>ev. is_write ev \<and> cli_raised ev = None)
                 (events_since (sim_world []) (snd run))) = 3 \<and>
       sim_dirs (ext (snd run)) = [Path []] \<and>
       map fst (sim_files (ext (snd run))) =
         [PathJoin (Path []) ''entity_extraction.txt'',
          PathJoin (Path []) ''summarize_descriptions.txt'',
          PathJoin (Path []) ''community_report.txt''])"
proof -
  let ?run = "prompt_tune (sim_env [[104, 105], [233], [8364]])
                (sim_args\<lparr>arg_output := []\<rparr>) (sim_world [])"
  have ok: "fst ?run = Inr ()" by (simp add: sim_defs)
  have fs: "sim_dirs (ext (snd ?run)) = [Path []]"
    "map fst (sim_files (ext (snd ?run))) =
         [PathJoin (Path []) ''entity_extraction.txt'',
          PathJoin (Path []) ''summarize_descriptions.txt'',
          PathJoin (Path []) ''community_report.txt'']"
    by (simp_all add: sim_defs)
  have run: "?run = (Inr (), snd ?run)" using ok by (metis prod.collapse)
  have out: "arg_output (sim_args\<lparr>arg_output := []\<rparr>) = []" by simp
  from output_branch_never_skipped[OF run] ok fs show ?thesis
    unfolding Let_def out by blast
qed

end
